theory Spec2Isabelle
  imports Complex_Main
begin

section \<open>Health Assistant: data model\<close>

text \<open>
  The development embeds \<^verbatim>\<open>HealthAssistant.cpp\<close>: the user registry, the two body fat
  methods (US Navy and BMI), the daily calorie table, the macronutrient split, the
  delimited text format of the records and the statistics over the reloaded files.

  A C++ \<^verbatim>\<open>double\<close> is a finite value, an infinity or a NaN. The finite values are
  idealised as real numbers: rounding, overflow, underflow and the sign of zero are not
  modelled. The special values are kept, since the source divides and takes logarithms
  of numbers read from a file.
\<close>

datatype double = Fin real | PInf | NInf | NaN

instantiation double :: "{plus, minus, times, inverse, ord}"
begin

fun plus_double :: "double \<Rightarrow> double \<Rightarrow> double" where
  "plus_double (Fin a) (Fin b) = Fin (a + b)"
| "plus_double NaN _ = NaN"
| "plus_double _ NaN = NaN"
| "plus_double PInf NInf = NaN"
| "plus_double NInf PInf = NaN"
| "plus_double PInf _ = PInf"
| "plus_double _ PInf = PInf"
| "plus_double NInf _ = NInf"
| "plus_double _ NInf = NInf"

fun minus_double :: "double \<Rightarrow> double \<Rightarrow> double" where
  "minus_double (Fin a) (Fin b) = Fin (a - b)"
| "minus_double NaN _ = NaN"
| "minus_double _ NaN = NaN"
| "minus_double PInf PInf = NaN"
| "minus_double NInf NInf = NaN"
| "minus_double PInf _ = PInf"
| "minus_double _ NInf = PInf"
| "minus_double NInf _ = NInf"
| "minus_double _ PInf = NInf"

fun times_double :: "double \<Rightarrow> double \<Rightarrow> double" where
  "times_double (Fin a) (Fin b) = Fin (a * b)"
| "times_double NaN _ = NaN"
| "times_double _ NaN = NaN"
| "times_double PInf (Fin b) = (if b = 0 then NaN else if 0 < b then PInf else NInf)"
| "times_double NInf (Fin b) = (if b = 0 then NaN else if 0 < b then NInf else PInf)"
| "times_double (Fin a) PInf = (if a = 0 then NaN else if 0 < a then PInf else NInf)"
| "times_double (Fin a) NInf = (if a = 0 then NaN else if 0 < a then NInf else PInf)"
| "times_double PInf PInf = PInf"
| "times_double NInf NInf = PInf"
| "times_double PInf NInf = NInf"
| "times_double NInf PInf = NInf"

fun divide_double :: "double \<Rightarrow> double \<Rightarrow> double" where
  "divide_double (Fin a) (Fin b) =
     (if b \<noteq> 0 then Fin (a / b)
      else if a = 0 then NaN else if 0 < a then PInf else NInf)"
| "divide_double NaN _ = NaN"
| "divide_double _ NaN = NaN"
| "divide_double (Fin a) PInf = Fin 0"
| "divide_double (Fin a) NInf = Fin 0"
| "divide_double PInf (Fin b) = (if 0 \<le> b then PInf else NInf)"
| "divide_double NInf (Fin b) = (if 0 \<le> b then NInf else PInf)"
| "divide_double PInf PInf = NaN"
| "divide_double PInf NInf = NaN"
| "divide_double NInf PInf = NaN"
| "divide_double NInf NInf = NaN"

definition inverse_double :: "double \<Rightarrow> double" where
  "inverse_double d = divide (Fin 1) d"

fun less_double :: "double \<Rightarrow> double \<Rightarrow> bool" where
  "less_double (Fin a) (Fin b) = (a < b)"
| "less_double NaN _ = False"
| "less_double _ NaN = False"
| "less_double NInf NInf = False"
| "less_double NInf _ = True"
| "less_double _ NInf = False"
| "less_double PInf _ = False"
| "less_double _ PInf = True"

definition less_eq_double :: "double \<Rightarrow> double \<Rightarrow> bool" where
  "less_eq_double a b = (a < b \<or> (a = b \<and> a \<noteq> NaN))"

instance ..

end

text \<open>\<^verbatim>\<open>log10\<close> of \<^verbatim>\<open><cmath>\<close>: minus infinity at zero, NaN below zero.\<close>

fun log10 :: "double \<Rightarrow> double" where
  "log10 (Fin x) = (if 0 < x then Fin (log 10 x) else if x = 0 then NInf else NaN)"
| "log10 PInf = PInf"
| "log10 NInf = NaN"
| "log10 NaN = NaN"

text \<open>
  \<^verbatim>\<open>static_cast<int>(d)\<close> truncates toward zero when the truncated value fits a 32-bit
  \<^verbatim>\<open>int\<close>. For every other operand the conversion is undefined in C++; the model
  takes the value it then yields as a parameter \<open>j\<close> and proves nothing about it.
\<close>

definition trunc_real :: "real \<Rightarrow> int" where
  "trunc_real x = (if 0 \<le> x then \<lfloor>x\<rfloor> else \<lceil>x\<rceil>)"

definition INT_MIN :: int where "INT_MIN = - 2147483648"
definition INT_MAX :: int where "INT_MAX = 2147483647"


definition static_cast_int :: "int \<Rightarrow> double \<Rightarrow> int" where
  "static_cast_int j d =
     (case d of
        Fin x \<Rightarrow> if INT_MIN \<le> trunc_real x \<and> trunc_real x \<le> INT_MAX then trunc_real x else j
      | _ \<Rightarrow> j)"

text \<open>The conversion of an \<^verbatim>\<open>int\<close> operand to \<^verbatim>\<open>double\<close> is exact.\<close>

definition double_of_int :: "int \<Rightarrow> double" where
  "double_of_int n = Fin (of_int n)"

text \<open>\<^verbatim>\<open>struct UserInfo\<close>, with the fields in the order of the source.\<close>

record UserInfo =
  age :: int
  weight :: double
  waist :: double
  neck :: double
  height :: double
  carbs :: double
  protein :: double
  fat :: double
  bfp :: "int \<times> string"
  daily_calories :: int
  hip :: double
  name :: string
  gender :: string
  lifestyle :: string

text \<open>\<^verbatim>\<open>new UserInfo\<close>: the default member initialisers.\<close>

definition new_UserInfo :: UserInfo where
  "new_UserInfo =
     \<lparr>age = 0, weight = Fin 0, waist = Fin 0, neck = Fin 0, height = Fin 0,
      carbs = Fin 0, protein = Fin 0, fat = Fin 0, bfp = (0, []), daily_calories = 0,
      hip = Fin 0, name = [], gender = [], lifestyle = []\<rparr>"

text \<open>What the program writes on its two console streams, one entry per line.\<close>

datatype console = Cout string | Cerr string

definition age_range_msg :: string where
  "age_range_msg =
     ''The body fat category cannot be determined because you are outside of the permitted age range.''"

definition calorie_msg :: string where
  "calorie_msg = ''This is ackward, your intake calarie wasn't able to be processed''"

section \<open>Body fat percentage\<close>

text \<open>
  \<^verbatim>\<open>USNavyMethod::getBfp(UserInfo*)\<close>. The local \<^verbatim>\<open>double bfp\<close> has no initialiser and
  no branch assigns it when the gender is neither \<^verbatim>\<open>female\<close> nor \<^verbatim>\<open>male\<close>: the final
  conversion then reads an indeterminate value, and stores \<open>j\<close>.
\<close>

definition usnavy_female_bfp :: "UserInfo \<Rightarrow> double" where
  "usnavy_female_bfp u =
     Fin 495.0 / (Fin 1.29579 - Fin 0.35004 * log10 (waist u + hip u - neck u)
                  + Fin 0.22100 * log10 (height u)) - Fin 450.0"

definition usnavy_male_bfp :: "UserInfo \<Rightarrow> double" where
  "usnavy_male_bfp u =
     Fin 495.0 / (Fin 1.0324 - Fin 0.19077 * log10 (waist u - neck u)
                  + Fin 0.15456 * log10 (height u)) - Fin 450.0"

definition usnavy_bands :: "double \<Rightarrow> real \<Rightarrow> real \<Rightarrow> real \<Rightarrow> string" where
  "usnavy_bands b lo no hi =
     (if b < Fin lo then ''USNavy: Low''
      else if b < Fin no then ''USNavy: Normal''
      else if b < Fin hi then ''USNavy: High''
      else ''USNavy: Very High'')"

definition USNavyMethod_getBfp :: "int \<Rightarrow> UserInfo \<Rightarrow> UserInfo \<times> console list" where
  "USNavyMethod_getBfp j u =
     (if gender u = ''female'' then
        (let b = usnavy_female_bfp u in
         if 20 \<le> age u \<and> age u \<le> 39 then
           (u\<lparr>bfp := (static_cast_int j b, usnavy_bands b 21 33 39)\<rparr>, [])
         else if 40 \<le> age u \<and> age u \<le> 59 then
           (u\<lparr>bfp := (static_cast_int j b, usnavy_bands b 23 34 40)\<rparr>, [])
         else if 60 \<le> age u \<and> age u \<le> 79 then
           (u\<lparr>bfp := (static_cast_int j b, usnavy_bands b 24 36 42)\<rparr>, [])
         else (u\<lparr>bfp := (static_cast_int j b, [])\<rparr>, [Cout age_range_msg]))
      else if gender u = ''male'' then
        (let b = usnavy_male_bfp u in
         if 20 \<le> age u \<and> age u \<le> 39 then
           (u\<lparr>bfp := (static_cast_int j b, usnavy_bands b 8 20 25)\<rparr>, [])
         else if 40 \<le> age u \<and> age u \<le> 59 then
           (u\<lparr>bfp := (static_cast_int j b, usnavy_bands b 11 22 28)\<rparr>, [])
         else if 60 \<le> age u \<and> age u \<le> 79 then
           (u\<lparr>bfp := (static_cast_int j b, usnavy_bands b 13 25 30)\<rparr>, [])
         else (u\<lparr>bfp := (static_cast_int j b, [])\<rparr>, [Cout age_range_msg]))
      else (u\<lparr>bfp := (j, [])\<rparr>, []))"

text \<open>\<^verbatim>\<open>UserStats::usNavyMethod\<close>, a second copy of the same body in the source.\<close>

definition UserStats_usNavyMethod :: "int \<Rightarrow> UserInfo \<Rightarrow> UserInfo \<times> console list" where
  "UserStats_usNavyMethod j u =
     (if gender u = ''female'' then
        (let b = usnavy_female_bfp u in
         if 20 \<le> age u \<and> age u \<le> 39 then
           (u\<lparr>bfp := (static_cast_int j b, usnavy_bands b 21 33 39)\<rparr>, [])
         else if 40 \<le> age u \<and> age u \<le> 59 then
           (u\<lparr>bfp := (static_cast_int j b, usnavy_bands b 23 34 40)\<rparr>, [])
         else if 60 \<le> age u \<and> age u \<le> 79 then
           (u\<lparr>bfp := (static_cast_int j b, usnavy_bands b 24 36 42)\<rparr>, [])
         else (u\<lparr>bfp := (static_cast_int j b, [])\<rparr>, [Cout age_range_msg]))
      else if gender u = ''male'' then
        (let b = usnavy_male_bfp u in
         if 20 \<le> age u \<and> age u \<le> 39 then
           (u\<lparr>bfp := (static_cast_int j b, usnavy_bands b 8 20 25)\<rparr>, [])
         else if 40 \<le> age u \<and> age u \<le> 59 then
           (u\<lparr>bfp := (static_cast_int j b, usnavy_bands b 11 22 28)\<rparr>, [])
         else if 60 \<le> age u \<and> age u \<le> 79 then
           (u\<lparr>bfp := (static_cast_int j b, usnavy_bands b 13 25 30)\<rparr>, [])
         else (u\<lparr>bfp := (static_cast_int j b, [])\<rparr>, [Cout age_range_msg]))
      else (u\<lparr>bfp := (j, [])\<rparr>, []))"

text \<open>\<^verbatim>\<open>BmiMethod::getBfp(UserInfo*)\<close> and its copy \<^verbatim>\<open>UserStats::bmiMethod\<close>.\<close>

definition bmi_value :: "UserInfo \<Rightarrow> double" where
  "bmi_value u = (weight u * Fin 100 * Fin 100) / (height u * height u)"

definition bmi_bands :: "double \<Rightarrow> string" where
  "bmi_bands b =
     (if b < Fin 18.5 then ''Bmi: Low''
      else if b < Fin 25 then ''Bmi: Normal''
      else if b < Fin 30 then ''Bmi: High''
      else ''Bmi: Very High'')"

definition BmiMethod_getBfp :: "int \<Rightarrow> UserInfo \<Rightarrow> UserInfo" where
  "BmiMethod_getBfp j u =
     (let b = bmi_value u in u\<lparr>bfp := (static_cast_int j b, bmi_bands b)\<rparr>)"

definition UserStats_bmiMethod :: "int \<Rightarrow> UserInfo \<Rightarrow> UserInfo" where
  "UserStats_bmiMethod j u =
     (let b = bmi_value u in u\<lparr>bfp := (static_cast_int j b, bmi_bands b)\<rparr>)"

section \<open>Daily calories and meal preparation\<close>

text \<open>
  \<^verbatim>\<open>HealthAssistant::getDailyCalories(UserInfo*)\<close>: the nested \<^verbatim>\<open>if\<close> chain of the source,
  branch by branch. An age or a lifestyle that no branch matches leaves the initial
  \<^verbatim>\<open>calories = 0\<close>; only the final \<^verbatim>\<open>else\<close> on the gender writes to \<^verbatim>\<open>std::cerr\<close>.
\<close>

definition HealthAssistant_getDailyCalories :: "UserInfo \<Rightarrow> UserInfo \<times> console list" where
  "HealthAssistant_getDailyCalories u =
     (if gender u = ''male'' then
        (if 19 \<le> age u \<and> age u \<le> 30 then
           (if lifestyle u = ''sedentary'' then (u\<lparr>daily_calories := 2400\<rparr>, [])
            else if lifestyle u = ''moderate'' then (u\<lparr>daily_calories := 2800\<rparr>, [])
            else if lifestyle u = ''active'' then (u\<lparr>daily_calories := 3000\<rparr>, [])
            else (u\<lparr>daily_calories := 0\<rparr>, []))
         else if 31 \<le> age u \<and> age u \<le> 50 then
           (if lifestyle u = ''sedentary'' then (u\<lparr>daily_calories := 2200\<rparr>, [])
            else if lifestyle u = ''moderate'' then (u\<lparr>daily_calories := 2600\<rparr>, [])
            else if lifestyle u = ''active'' then (u\<lparr>daily_calories := 3000\<rparr>, [])
            else (u\<lparr>daily_calories := 0\<rparr>, []))
         else if 50 < age u then
           (if lifestyle u = ''sedentary'' then (u\<lparr>daily_calories := 2000\<rparr>, [])
            else if lifestyle u = ''moderate'' then (u\<lparr>daily_calories := 2400\<rparr>, [])
            else if lifestyle u = ''active'' then (u\<lparr>daily_calories := 2800\<rparr>, [])
            else (u\<lparr>daily_calories := 0\<rparr>, []))
         else (u\<lparr>daily_calories := 0\<rparr>, []))
      else if gender u = ''female'' then
        (if 19 \<le> age u \<and> age u \<le> 30 then
           (if lifestyle u = ''sedentary'' then (u\<lparr>daily_calories := 2000\<rparr>, [])
            else if lifestyle u = ''moderate'' then (u\<lparr>daily_calories := 2200\<rparr>, [])
            else if lifestyle u = ''active'' then (u\<lparr>daily_calories := 2400\<rparr>, [])
            else (u\<lparr>daily_calories := 0\<rparr>, []))
         else if 31 \<le> age u \<and> age u \<le> 50 then
           (if lifestyle u = ''sedentary'' then (u\<lparr>daily_calories := 1800\<rparr>, [])
            else if lifestyle u = ''moderate'' then (u\<lparr>daily_calories := 2000\<rparr>, [])
            else if lifestyle u = ''active'' then (u\<lparr>daily_calories := 2200\<rparr>, [])
            else (u\<lparr>daily_calories := 0\<rparr>, []))
         else if 50 < age u then
           (if lifestyle u = ''sedentary'' then (u\<lparr>daily_calories := 1600\<rparr>, [])
            else if lifestyle u = ''moderate'' then (u\<lparr>daily_calories := 1800\<rparr>, [])
            else if lifestyle u = ''active'' then (u\<lparr>daily_calories := 2200\<rparr>, [])
            else (u\<lparr>daily_calories := 0\<rparr>, []))
         else (u\<lparr>daily_calories := 0\<rparr>, []))
      else (u\<lparr>daily_calories := 0\<rparr>, [Cerr calorie_msg]))"

text \<open>\<^verbatim>\<open>UserStats::getDailyCalories\<close>, the copy used by the statistics.\<close>

definition UserStats_getDailyCalories :: "UserInfo \<Rightarrow> UserInfo \<times> console list" where
  "UserStats_getDailyCalories u =
     (if gender u = ''male'' then
        (if 19 \<le> age u \<and> age u \<le> 30 then
           (if lifestyle u = ''sedentary'' then (u\<lparr>daily_calories := 2400\<rparr>, [])
            else if lifestyle u = ''moderate'' then (u\<lparr>daily_calories := 2800\<rparr>, [])
            else if lifestyle u = ''active'' then (u\<lparr>daily_calories := 3000\<rparr>, [])
            else (u\<lparr>daily_calories := 0\<rparr>, []))
         else if 31 \<le> age u \<and> age u \<le> 50 then
           (if lifestyle u = ''sedentary'' then (u\<lparr>daily_calories := 2200\<rparr>, [])
            else if lifestyle u = ''moderate'' then (u\<lparr>daily_calories := 2600\<rparr>, [])
            else if lifestyle u = ''active'' then (u\<lparr>daily_calories := 3000\<rparr>, [])
            else (u\<lparr>daily_calories := 0\<rparr>, []))
         else if 50 < age u then
           (if lifestyle u = ''sedentary'' then (u\<lparr>daily_calories := 2000\<rparr>, [])
            else if lifestyle u = ''moderate'' then (u\<lparr>daily_calories := 2400\<rparr>, [])
            else if lifestyle u = ''active'' then (u\<lparr>daily_calories := 2800\<rparr>, [])
            else (u\<lparr>daily_calories := 0\<rparr>, []))
         else (u\<lparr>daily_calories := 0\<rparr>, []))
      else if gender u = ''female'' then
        (if 19 \<le> age u \<and> age u \<le> 30 then
           (if lifestyle u = ''sedentary'' then (u\<lparr>daily_calories := 2000\<rparr>, [])
            else if lifestyle u = ''moderate'' then (u\<lparr>daily_calories := 2200\<rparr>, [])
            else if lifestyle u = ''active'' then (u\<lparr>daily_calories := 2400\<rparr>, [])
            else (u\<lparr>daily_calories := 0\<rparr>, []))
         else if 31 \<le> age u \<and> age u \<le> 50 then
           (if lifestyle u = ''sedentary'' then (u\<lparr>daily_calories := 1800\<rparr>, [])
            else if lifestyle u = ''moderate'' then (u\<lparr>daily_calories := 2000\<rparr>, [])
            else if lifestyle u = ''active'' then (u\<lparr>daily_calories := 2200\<rparr>, [])
            else (u\<lparr>daily_calories := 0\<rparr>, []))
         else if 50 < age u then
           (if lifestyle u = ''sedentary'' then (u\<lparr>daily_calories := 1600\<rparr>, [])
            else if lifestyle u = ''moderate'' then (u\<lparr>daily_calories := 1800\<rparr>, [])
            else if lifestyle u = ''active'' then (u\<lparr>daily_calories := 2200\<rparr>, [])
            else (u\<lparr>daily_calories := 0\<rparr>, []))
         else (u\<lparr>daily_calories := 0\<rparr>, []))
      else (u\<lparr>daily_calories := 0\<rparr>, [Cerr calorie_msg]))"

text \<open>
  \<^verbatim>\<open>HealthAssistant::getMealPrep(UserInfo*)\<close> and \<^verbatim>\<open>UserStats::getMealPrep\<close>: the
  \<^verbatim>\<open>int\<close> calories are converted to \<^verbatim>\<open>double\<close> by the multiplication.
\<close>

definition HealthAssistant_getMealPrep :: "UserInfo \<Rightarrow> UserInfo" where
  "HealthAssistant_getMealPrep u =
     (let carbs_calories = double_of_int (daily_calories u) * Fin 0.50;
          protein_calories = double_of_int (daily_calories u) * Fin 0.30;
          fat_calories = double_of_int (daily_calories u) * Fin 0.20
      in u\<lparr>carbs := carbs_calories / Fin 4.0,
            protein := protein_calories / Fin 4.0,
            fat := fat_calories / Fin 9.0\<rparr>)"

definition UserStats_getMealPrep :: "UserInfo \<Rightarrow> UserInfo" where
  "UserStats_getMealPrep u =
     (let carbs_calories = double_of_int (daily_calories u) * Fin 0.50;
          protein_calories = double_of_int (daily_calories u) * Fin 0.30;
          fat_calories = double_of_int (daily_calories u) * Fin 0.20
      in u\<lparr>carbs := carbs_calories / Fin 4.0,
            protein := protein_calories / Fin 4.0,
            fat := fat_calories / Fin 9.0\<rparr>)"

section \<open>The registry\<close>

text \<open>
  \<^verbatim>\<open>UserInfoManager::userInfoList\<close> is a vector of pointers, each to a record allocated
  by \<^verbatim>\<open>new\<close> for that entry alone, so no two entries share a record: the registry is the
  list of the records, and a pointer into it is the position of its entry.
\<close>

type_synonym registry = "UserInfo list"

definition addUserInfo :: "registry \<Rightarrow> UserInfo \<Rightarrow> registry" where
  "addUserInfo l userInfo = l @ [userInfo]"

text \<open>The search loop of \<^verbatim>\<open>deleteUser\<close>: where the iterator stops, the end if nowhere.\<close>

fun delete_pos :: "registry \<Rightarrow> string \<Rightarrow> nat" where
  "delete_pos [] username = 0"
| "delete_pos (u # us) username =
     (if name u = username then 0 else Suc (delete_pos us username))"

definition deleteUser :: "registry \<Rightarrow> string \<Rightarrow> registry" where
  "deleteUser l username =
     (let it = delete_pos l username
      in if it \<noteq> length l then take it l @ drop (Suc it) l else l)"

text \<open>\<^verbatim>\<open>getUserInfo\<close>: the position of the first match, or \<open>None\<close> for \<^verbatim>\<open>nullptr\<close>.\<close>

fun find_user :: "registry \<Rightarrow> string \<Rightarrow> nat option" where
  "find_user [] username = None"
| "find_user (u # us) username =
     (if name u = username then Some 0 else map_option Suc (find_user us username))"

definition getUserInfo :: "registry \<Rightarrow> string \<Rightarrow> nat option \<times> console list" where
  "getUserInfo l username =
     (if l = [] then (None, [Cerr ''no user in list''])
      else case find_user l username of
             Some i \<Rightarrow> (Some i, [])
           | None \<Rightarrow> (None, [Cerr ''user not found'']))"

text \<open>
  The operations by name pass the pointer from \<^verbatim>\<open>getUserInfo\<close> on without a test, and
  the callee reads a field through it at once. Through \<^verbatim>\<open>nullptr\<close> that read is
  undefined behaviour (on the usual platforms the process is killed there): the fault
  \<open>NullDereference\<close>, after which no registry is returned.
\<close>

datatype fault = NullDereference

type_synonym by_name_result = "(fault + registry) \<times> console list"

definition USNavyMethod_getBfp_name :: "int \<Rightarrow> registry \<Rightarrow> string \<Rightarrow> by_name_result" where
  "USNavyMethod_getBfp_name j l username =
     (case getUserInfo l username of
        (None, out) \<Rightarrow> (Inl NullDereference, out)
      | (Some i, out) \<Rightarrow>
          (let (u', out') = USNavyMethod_getBfp j (l ! i)
           in (Inr (l[i := u']), out @ out')))"

definition BmiMethod_getBfp_name :: "int \<Rightarrow> registry \<Rightarrow> string \<Rightarrow> by_name_result" where
  "BmiMethod_getBfp_name j l username =
     (case getUserInfo l username of
        (None, out) \<Rightarrow> (Inl NullDereference, out)
      | (Some i, out) \<Rightarrow> (Inr (l[i := BmiMethod_getBfp j (l ! i)]), out))"

definition getDailyCalories_name :: "registry \<Rightarrow> string \<Rightarrow> by_name_result" where
  "getDailyCalories_name l username =
     (case getUserInfo l username of
        (None, out) \<Rightarrow> (Inl NullDereference, out)
      | (Some i, out) \<Rightarrow>
          (let (u', out') = HealthAssistant_getDailyCalories (l ! i)
           in (Inr (l[i := u']), out @ out')))"

definition getMealPrep_name :: "registry \<Rightarrow> string \<Rightarrow> by_name_result" where
  "getMealPrep_name l username =
     (case getUserInfo l username of
        (None, out) \<Rightarrow> (Inl NullDereference, out)
      | (Some i, out) \<Rightarrow> (Inr (l[i := HealthAssistant_getMealPrep (l ! i)]), out))"

section \<open>Numbers as text\<close>

text \<open>
  The source leaves the conversions between numbers and text to the C++ library:
  \<^verbatim>\<open>std::stoi\<close> and \<^verbatim>\<open>std::stod\<close> when it reads, \<^verbatim>\<open>operator<<\<close> and the
  \<^verbatim>\<open>std::fixed\<close> stream of \<^verbatim>\<open>double_to_string\<close> when it writes. They are modelled here in
  the "C" locale. Since finite doubles are idealised as reals, a number is printed from
  its exact value (ties go to the even digit, as the library does on an exact binary
  value) and read without rounding or range error.
\<close>

datatype error = RuntimeError string | InvalidArgument string | OutOfRange string
  | DivisionByZero

definition bind_err :: "error + 'a \<Rightarrow> ('a \<Rightarrow> error + 'b) \<Rightarrow> error + 'b" where
  "bind_err r f = (case r of Inl e \<Rightarrow> Inl e | Inr v \<Rightarrow> f v)"

definition newline :: char where "newline = CHR 0x0A"

definition is_space :: "char \<Rightarrow> bool" where
  "is_space c = (c \<in> set [CHR '' '', CHR 0x09, CHR 0x0A, CHR 0x0B, CHR 0x0C, CHR 0x0D])"

definition is_digit :: "char \<Rightarrow> bool" where
  "is_digit c = (c \<in> set ''0123456789'')"

text \<open>The position of a character in a string of digits is its value.\<close>

definition position :: "char \<Rightarrow> string \<Rightarrow> nat" where
  "position c s = length (takeWhile (\<lambda>d. d \<noteq> c) s)"

definition digit_val :: "char \<Rightarrow> nat" where
  "digit_val c = position c ''0123456789''"

definition digit_char :: "nat \<Rightarrow> char" where
  "digit_char d = ''0123456789'' ! (d mod 10)"

definition is_xdigit :: "char \<Rightarrow> bool" where
  "is_xdigit c = (c \<in> set ''0123456789abcdefABCDEF'')"

definition xdigit_val :: "char \<Rightarrow> nat" where
  "xdigit_val c =
     (let i = position c ''0123456789abcdefABCDEF'' in if i < 16 then i else i - 6)"

text \<open>The value of a digit string, most significant digit first.\<close>

fun digits_val :: "nat \<Rightarrow> string \<Rightarrow> nat" where
  "digits_val acc [] = acc"
| "digits_val acc (c # cs) = digits_val (acc * 10 + digit_val c) cs"

fun xdigits_val :: "nat \<Rightarrow> string \<Rightarrow> nat" where
  "xdigits_val acc [] = acc"
| "xdigits_val acc (c # cs) = xdigits_val (acc * 16 + xdigit_val c) cs"

text \<open>An optional sign in front of a number: whether it is a minus, and the rest.\<close>

fun take_sign :: "string \<Rightarrow> bool \<times> string" where
  "take_sign [] = (False, [])"
| "take_sign (c # cs) =
     (if c = CHR ''-'' then (True, cs) else if c = CHR ''+'' then (False, cs)
      else (False, c # cs))"

text \<open>
  \<^verbatim>\<open>std::stoi(token)\<close>, base 10: leading white space, an optional sign, then digits up to
  the first other character. No digit: \<^verbatim>\<open>std::invalid_argument\<close>. A value that does not
  fit an \<^verbatim>\<open>int\<close>: \<^verbatim>\<open>std::out_of_range\<close>.
\<close>

definition stoi :: "string \<Rightarrow> error + int" where
  "stoi s =
     (let (minus, t) = take_sign (dropWhile is_space s);
          ds = takeWhile is_digit t
      in if ds = [] then Inl (InvalidArgument ''stoi'')
         else let v = (if minus then - int (digits_val 0 ds) else int (digits_val 0 ds))
              in if v < INT_MIN \<or> INT_MAX < v then Inl (OutOfRange ''stoi'') else Inr v)"

definition scale10 :: "real \<Rightarrow> int \<Rightarrow> real" where
  "scale10 x k = (if 0 \<le> k then x * 10 ^ nat k else x / 10 ^ nat (- k))"

definition scale2 :: "real \<Rightarrow> int \<Rightarrow> real" where
  "scale2 x k = (if 0 \<le> k then x * 2 ^ nat k else x / 2 ^ nat (- k))"

text \<open>
  An exponent part: the marker (\<^verbatim>\<open>e\<close> or \<^verbatim>\<open>p\<close>, in either case), an optional sign and at
  least one digit; without a digit there is no exponent part and the exponent is 0.
\<close>

definition exponent_part :: "char \<Rightarrow> char \<Rightarrow> string \<Rightarrow> int" where
  "exponent_part lo up r =
     (case r of
        [] \<Rightarrow> 0
      | c # cs \<Rightarrow>
          if c = lo \<or> c = up then
            (let (minus, t) = take_sign cs; ds = takeWhile is_digit t
             in if ds = [] then 0
                else if minus then - int (digits_val 0 ds) else int (digits_val 0 ds))
          else 0)"

definition decimal_float :: "string \<Rightarrow> real option" where
  "decimal_float t =
     (let ds1 = takeWhile is_digit t; r1 = dropWhile is_digit t;
          (ds2, r2) = (case r1 of
                         [] \<Rightarrow> ([], r1)
                       | c # cs \<Rightarrow> if c = CHR ''.''
                                   then (takeWhile is_digit cs, dropWhile is_digit cs)
                                   else ([], r1))
      in if ds1 = [] \<and> ds2 = [] then None
         else Some (scale10 (real (digits_val 0 ds1) + real (digits_val 0 ds2) / 10 ^ length ds2)
                      (exponent_part (CHR ''e'') (CHR ''E'') r2)))"

definition hex_float :: "string \<Rightarrow> real option" where
  "hex_float t =
     (case t of
        c0 # cx # r \<Rightarrow>
          if c0 = CHR ''0'' \<and> (cx = CHR ''x'' \<or> cx = CHR ''X'') then
            (let hs1 = takeWhile is_xdigit r; r1 = dropWhile is_xdigit r;
                 (hs2, r2) = (case r1 of
                                [] \<Rightarrow> ([], r1)
                              | c # cs \<Rightarrow> if c = CHR ''.''
                                          then (takeWhile is_xdigit cs, dropWhile is_xdigit cs)
                                          else ([], r1))
             in if hs1 = [] \<and> hs2 = [] then None
                else Some (scale2 (real (xdigits_val 0 hs1)
                                   + real (xdigits_val 0 hs2) / 16 ^ length hs2)
                             (exponent_part (CHR ''p'') (CHR ''P'') r2)))
          else None
      | _ \<Rightarrow> None)"

definition lower :: "char \<Rightarrow> char" where
  "lower c = (if 65 \<le> (of_char c :: nat) \<and> (of_char c :: nat) \<le> 90
              then char_of ((of_char c :: nat) + 32) else c)"

definition special_float :: "string \<Rightarrow> double option" where
  "special_float t =
     (if map lower (take 3 t) = ''inf'' then Some PInf
      else if map lower (take 3 t) = ''nan'' then Some NaN
      else None)"

fun negate :: "double \<Rightarrow> double" where
  "negate (Fin x) = Fin (- x)"
| "negate PInf = NInf"
| "negate NInf = PInf"
| "negate NaN = NaN"

text \<open>
  \<^verbatim>\<open>std::stod(token)\<close>: leading white space, an optional sign, then an infinity or a
  NaN, a hexadecimal number or a decimal number with an optional exponent, up to the
  first character that does not continue it. Nothing of that form:
  \<^verbatim>\<open>std::invalid_argument\<close>.
\<close>

definition stod :: "string \<Rightarrow> error + double" where
  "stod s =
     (let (minus, t) = take_sign (dropWhile is_space s)
      in case special_float t of
           Some d \<Rightarrow> Inr (if minus then negate d else d)
         | None \<Rightarrow>
            (case hex_float t of
               Some v \<Rightarrow> Inr (Fin (if minus then - v else v))
             | None \<Rightarrow>
                (case decimal_float t of
                   Some v \<Rightarrow> Inr (Fin (if minus then - v else v))
                 | None \<Rightarrow> Inl (InvalidArgument ''stod''))))"

subsection \<open>Writing numbers\<close>

function digits_of_nat :: "nat \<Rightarrow> string" where
  "digits_of_nat n =
     (if n < 10 then [digit_char n] else digits_of_nat (n div 10) @ [digit_char (n mod 10)])"
  by pat_completeness auto
termination
  by (relation "measure (\<lambda>n. n)") auto

declare digits_of_nat.simps [simp del]

text \<open>\<^verbatim>\<open>operator<<\<close> on an \<^verbatim>\<open>int\<close>.\<close>

definition put_int :: "int \<Rightarrow> string" where
  "put_int n = (if n < 0 then CHR ''-'' # digits_of_nat (nat (- n)) else digits_of_nat (nat n))"

definition round_half_even :: "real \<Rightarrow> int" where
  "round_half_even r =
     (let f = \<lfloor>r\<rfloor>; d = r - of_int f
      in if d < 1 / 2 then f else if 1 / 2 < d then f + 1
         else if even f then f else f + 1)"

text \<open>The decimal exponent of a positive number: \<open>10 ^ e \<le> x < 10 ^ (e + 1)\<close>.\<close>

function log10_up :: "real \<Rightarrow> nat" where
  "log10_up x = (if x < 10 then 0 else Suc (log10_up (x / 10)))"
  by pat_completeness auto
termination
proof (relation "measure (\<lambda>x. nat \<lfloor>x\<rfloor>)")
  show "wf (measure (\<lambda>x::real. nat \<lfloor>x\<rfloor>))" by simp
next
  fix x :: real
  assume "\<not> x < 10"
  then have "\<lfloor>x / 10\<rfloor> < \<lfloor>x\<rfloor>" and "0 < \<lfloor>x\<rfloor>"
    by linarith+
  then show "(x / 10, x) \<in> measure (\<lambda>x. nat \<lfloor>x\<rfloor>)"
    by simp
qed

function log10_down :: "real \<Rightarrow> nat" where
  "log10_down x = (if x \<le> 0 \<or> 1 \<le> x then 0 else Suc (log10_down (x * 10)))"
  by pat_completeness auto
termination
proof (relation "measure (\<lambda>x. nat \<lceil>1 / x\<rceil>)")
  show "wf (measure (\<lambda>x::real. nat \<lceil>1 / x\<rceil>))" by simp
next
  fix x :: real
  assume "\<not> (x \<le> 0 \<or> 1 \<le> x)"
  then have x: "0 < x" "x < 1" by simp_all
  then have y: "1 < 1 / x" by simp
  then have c: "2 \<le> \<lceil>1 / x\<rceil>" by linarith
  from c have "real_of_int 2 \<le> of_int \<lceil>1 / x\<rceil>" by (simp only: of_int_le_iff)
  then have c': "2 \<le> real_of_int \<lceil>1 / x\<rceil>" by simp
  have "1 / (x * 10) = (1 / x) / 10" by simp
  also have "\<dots> \<le> of_int \<lceil>1 / x\<rceil> / 10" by (simp add: divide_right_mono)
  also have "\<dots> \<le> real_of_int \<lceil>1 / x\<rceil> - 1" using c' by linarith
  also have "\<dots> = of_int (\<lceil>1 / x\<rceil> - 1)" by (simp only: of_int_diff of_int_1)
  finally have "\<lceil>1 / (x * 10)\<rceil> \<le> \<lceil>1 / x\<rceil> - 1" by (simp only: ceiling_le)
  with c have "nat \<lceil>1 / (x * 10)\<rceil> < nat \<lceil>1 / x\<rceil>" by linarith
  then show "(x * 10, x) \<in> measure (\<lambda>x. nat \<lceil>1 / x\<rceil>)"
    by (simp only: in_measure)
qed

declare log10_up.simps [simp del] log10_down.simps [simp del]

definition floor_log10 :: "real \<Rightarrow> int" where
  "floor_log10 x = (if 1 \<le> x then int (log10_up x) else - int (log10_down x))"

definition strip_zeros :: "string \<Rightarrow> string" where
  "strip_zeros ds = rev (dropWhile (\<lambda>c. c = CHR ''0'') (rev ds))"

definition with_point :: "string \<Rightarrow> string \<Rightarrow> string" where
  "with_point ip fp = (if fp = [] then ip else ip @ CHR ''.'' # fp)"

text \<open>
  The default format of a stream for a positive \<^verbatim>\<open>double\<close> is \<^verbatim>\<open>%g\<close> with precision 6:
  six significant digits; scientific notation when the decimal exponent is below \<open>-4\<close> or
  at least 6, fixed notation otherwise; trailing zeros removed, with the point if no
  digit follows it; an exponent of at least two digits.
\<close>

definition put_positive :: "real \<Rightarrow> string" where
  "put_positive x =
     (let e0 = floor_log10 x;
          m0 = round_half_even (scale10 x (5 - e0));
          m = (if m0 = 1000000 then 100000 else m0);
          e = (if m0 = 1000000 then e0 + 1 else e0);
          ds = digits_of_nat (nat m)
      in if e < - 4 \<or> 6 \<le> e then
           with_point [hd ds] (strip_zeros (tl ds))
           @ CHR ''e'' # (if e < 0 then CHR ''-'' else CHR ''+'')
           # (if \<bar>e\<bar> < 10 then CHR ''0'' # digits_of_nat (nat \<bar>e\<bar>) else digits_of_nat (nat \<bar>e\<bar>))
         else if 0 \<le> e then
           with_point (take (nat e + 1) ds) (strip_zeros (drop (nat e + 1) ds))
         else
           CHR ''0'' # CHR ''.'' # replicate (nat (- e - 1)) (CHR ''0'') @ strip_zeros ds)"

text \<open>\<^verbatim>\<open>operator<<\<close> on a \<^verbatim>\<open>double\<close>.\<close>

definition put_double :: "double \<Rightarrow> string" where
  "put_double d =
     (case d of
        Fin x \<Rightarrow> if x = 0 then ''0''
                 else if x < 0 then CHR ''-'' # put_positive (- x) else put_positive x
      | PInf \<Rightarrow> ''inf''
      | NInf \<Rightarrow> ''-inf''
      | NaN \<Rightarrow> ''nan'')"

text \<open>
  \<^verbatim>\<open>double_to_string(input, precision)\<close>: the stream is set to \<^verbatim>\<open>std::fixed\<close> with the
  given precision, that is \<^verbatim>\<open>%.<precision>f\<close>.
\<close>

definition pad_zeros :: "nat \<Rightarrow> string \<Rightarrow> string" where
  "pad_zeros p ds = replicate (p - length ds) (CHR ''0'') @ ds"

definition fixed_positive :: "real \<Rightarrow> nat \<Rightarrow> string" where
  "fixed_positive x p =
     (let m = nat (round_half_even (x * 10 ^ p))
      in with_point (digits_of_nat (m div 10 ^ p))
           (if p = 0 then [] else pad_zeros p (digits_of_nat (m mod 10 ^ p))))"

definition double_to_string :: "double \<Rightarrow> nat \<Rightarrow> string" where
  "double_to_string input precision =
     (case input of
        Fin x \<Rightarrow> if x < 0 then CHR ''-'' # fixed_positive (- x) precision
                 else fixed_positive x precision
      | PInf \<Rightarrow> ''inf''
      | NInf \<Rightarrow> ''-inf''
      | NaN \<Rightarrow> ''nan'')"

text \<open>The characters that a printed number is made of; the comma is not among them.\<close>

definition numeric_char :: "char \<Rightarrow> bool" where
  "numeric_char c = (c \<in> set ''0123456789.-+einfa'')"

section \<open>The delimited text format\<close>

text \<open>
  A file system maps a file name to what is there: nothing, a file that cannot be
  opened, a directory, or a file with its content. A directory is opened by
  \<^verbatim>\<open>std::ifstream\<close>, its end is not at position 0, and no line can be read from it; it
  is not opened by \<^verbatim>\<open>std::ofstream\<close>.
\<close>

datatype disk_file = NoFile | Denied | Directory | Content string

type_synonym filesystem = "string \<Rightarrow> disk_file"

text \<open>
  \<^verbatim>\<open>std::getline(stream, str, delim)\<close> on a string stream: the characters not yet read,
  and whether the stream is still good. On a stream that is not good the call leaves
  \<open>str\<close> as it was. Reading up to the end without finding the delimiter sets the end
  flag, so the stream is not good afterwards.
\<close>

type_synonym istream = "string \<times> bool"

definition getline_delim :: "istream \<Rightarrow> string \<Rightarrow> char \<Rightarrow> string \<times> istream" where
  "getline_delim iss str delim =
     (case iss of (s, good) \<Rightarrow>
        if \<not> good then (str, (s, False))
        else if delim \<in> set s
          then (takeWhile (\<lambda>c. c \<noteq> delim) s, (tl (dropWhile (\<lambda>c. c \<noteq> delim) s), True))
        else (s, ([], False)))"

text \<open>
  The body of the \<^verbatim>\<open>while (getline(file, line))\<close> loop up to the last field: the same
  statements in \<^verbatim>\<open>UserInfoManager::readFromFile\<close>, \<^verbatim>\<open>HealthAssistant::massLoadAndCompute\<close>
  and \<^verbatim>\<open>UserStats::massLoadAndCompute\<close>. The variable \<^verbatim>\<open>token\<close> is reused from field to
  field, and the exceptions of \<^verbatim>\<open>std::stoi\<close> and \<^verbatim>\<open>std::stod\<close> leave the loop.
\<close>

definition parse_line :: "string \<Rightarrow> error + UserInfo" where
  "parse_line line =
     (let iss = (line, True);
          (nm, iss) = getline_delim iss (name new_UserInfo) (CHR '','');
          (gd, iss) = getline_delim iss (gender new_UserInfo) (CHR '','');
          (token, iss) = getline_delim iss [] (CHR '','')
      in bind_err (stoi token) (\<lambda>a.
         let (token, iss) = getline_delim iss token (CHR '','') in
         bind_err (stod token) (\<lambda>w.
         let (token, iss) = getline_delim iss token (CHR '','') in
         bind_err (stod token) (\<lambda>wa.
         let (token, iss) = getline_delim iss token (CHR '','') in
         bind_err (stod token) (\<lambda>nk.
         let (token, iss) = getline_delim iss token (CHR '','') in
         bind_err (if token = [] then Inr (Fin 0.0) else stod token) (\<lambda>hp.
         let (token, iss) = getline_delim iss token (CHR '','') in
         bind_err (stod token) (\<lambda>h.
         let (ls, iss) = getline_delim iss (lifestyle new_UserInfo) newline in
         Inr (new_UserInfo\<lparr>name := nm, gender := gd, age := a, weight := w, waist := wa,
                neck := nk, hip := hp, height := h, lifestyle := ls\<rparr>))))))))"

text \<open>
  The lines that the loop over the file sees: split at the newline; characters after the
  last newline are a line too, and nothing after it is no line.
\<close>

fun file_lines :: "string \<Rightarrow> string \<Rightarrow> string list" where
  "file_lines acc [] = (if acc = [] then [] else [rev acc])"
| "file_lines acc (c # cs) =
     (if c = newline then rev acc # file_lines [] cs else file_lines (c # acc) cs)"

text \<open>
  The head of the three readers: an exception when the file cannot be opened, another
  one when \<^verbatim>\<open>tellg\<close> at its end is 0; otherwise the lines that the loop reads, none for
  a directory.
\<close>

definition open_source :: "filesystem \<Rightarrow> string \<Rightarrow> error + string list" where
  "open_source fs filename =
     (case fs filename of
        Content c \<Rightarrow>
          if c = [] then Inl (RuntimeError (''File is empty: '' @ filename))
          else Inr (file_lines [] c)
      | Directory \<Rightarrow> Inr []
      | _ \<Rightarrow> Inl (RuntimeError
                 (''Cannot open file as it may not exist or cannot be opened: '' @ filename)))"

text \<open>
  \<^verbatim>\<open>UserInfoManager::readFromFile\<close>. Nothing in the program catches an exception, so the
  registry as it is when one is thrown is not part of the result.
\<close>

fun read_records :: "string list \<Rightarrow> registry \<Rightarrow> console list \<Rightarrow> error + registry \<times> console list" where
  "read_records [] l out = Inr (l, out)"
| "read_records (line # lines) l out =
     (case parse_line line of
        Inl e \<Rightarrow> Inl e
      | Inr user \<Rightarrow> read_records lines (l @ [user]) (out @ [Cout line]))"

definition readFromFile :: "filesystem \<Rightarrow> string \<Rightarrow> registry \<Rightarrow> error + registry \<times> console list" where
  "readFromFile fs filename l =
     bind_err (open_source fs filename) (\<lambda>lines. read_records lines l [])"

text \<open>\<^verbatim>\<open>UserInfoManager::writeToFile\<close>: one line per record, appended to the file.\<close>

definition encode_line :: "UserInfo \<Rightarrow> string" where
  "encode_line user =
     name user @ '','' @ gender user @ '','' @ put_int (age user) @ '',''
     @ put_double (weight user) @ '','' @ put_double (waist user) @ '',''
     @ put_double (neck user) @ '',''
     @ (if gender user = ''female'' then double_to_string (hip user) 1 else [])
     @ '','' @ put_double (height user) @ '','' @ lifestyle user"

definition writeToFile :: "filesystem \<Rightarrow> string \<Rightarrow> registry \<Rightarrow> filesystem \<times> console list" where
  "writeToFile fs filename l =
     (case fs filename of
        Denied \<Rightarrow> (fs, [Cerr (''Error opening file: '' @ filename)])
      | Directory \<Rightarrow> (fs, [Cerr (''Error opening file: '' @ filename)])
      | NoFile \<Rightarrow>
          (fs(filename := Content (concat (map (\<lambda>user. encode_line user @ [newline]) l))), [])
      | Content c \<Rightarrow>
          (fs(filename := Content (c @ concat (map (\<lambda>user. encode_line user @ [newline]) l))),
           []))"

section \<open>Bulk loading and statistics\<close>

datatype BfpType = BmiMethod | USNavyMethod

text \<open>
  \<^verbatim>\<open>HealthAssistant::massLoadAndCompute\<close>: the virtual \<^verbatim>\<open>getBfp(user)\<close> is the one of the
  object's class, here the first argument.
\<close>

definition getBfp :: "BfpType \<Rightarrow> int \<Rightarrow> UserInfo \<Rightarrow> UserInfo \<times> console list" where
  "getBfp t j user =
     (case t of
        BmiMethod \<Rightarrow> (BmiMethod_getBfp j user, [])
      | USNavyMethod \<Rightarrow> USNavyMethod_getBfp j user)"

fun load_records ::
  "BfpType \<Rightarrow> int \<Rightarrow> string list \<Rightarrow> registry \<Rightarrow> console list \<Rightarrow> error + registry \<times> console list"
where
  "load_records t j [] l out = Inr (l, out)"
| "load_records t j (line # lines) l out =
     (case parse_line line of
        Inl e \<Rightarrow> Inl e
      | Inr user \<Rightarrow>
          (let (u1, o1) = getBfp t j user;
               (u2, o2) = HealthAssistant_getDailyCalories u1;
               u3 = HealthAssistant_getMealPrep u2
           in load_records t j lines (addUserInfo l u3) (out @ o1 @ o2)))"

definition HealthAssistant_massLoadAndCompute ::
  "BfpType \<Rightarrow> int \<Rightarrow> filesystem \<Rightarrow> string \<Rightarrow> registry \<Rightarrow> error + registry \<times> console list"
where
  "HealthAssistant_massLoadAndCompute t j fs filename l =
     bind_err (open_source fs filename) (\<lambda>lines. load_records t j lines l [])"

text \<open>\<^verbatim>\<open>UserStats::massLoadAndCompute\<close>, which returns a list of its own.\<close>

fun stats_records ::
  "BfpType \<Rightarrow> int \<Rightarrow> string list \<Rightarrow> UserInfo list \<Rightarrow> console list
     \<Rightarrow> error + UserInfo list \<times> console list"
where
  "stats_records t j [] l out = Inr (l, out)"
| "stats_records t j (line # lines) l out =
     (case parse_line line of
        Inl e \<Rightarrow> Inl e
      | Inr user \<Rightarrow>
          (let (u1, o1) = (case t of
                             BmiMethod \<Rightarrow> (UserStats_bmiMethod j user, [])
                           | USNavyMethod \<Rightarrow> UserStats_usNavyMethod j user);
               (u2, o2) = UserStats_getDailyCalories u1;
               u3 = UserStats_getMealPrep u2
           in stats_records t j lines (l @ [u3]) (out @ o1 @ o2)))"

definition UserStats_massLoadAndCompute ::
  "int \<Rightarrow> filesystem \<Rightarrow> string \<Rightarrow> BfpType \<Rightarrow> error + UserInfo list \<times> console list"
where
  "UserStats_massLoadAndCompute j fs filename bfpType =
     bind_err (open_source fs filename) (\<lambda>lines. stats_records bfpType j lines [] [])"

text \<open>\<^verbatim>\<open>UserStats::GetHealthyUsers(method, gender)\<close>.\<close>

definition GetHealthyUsers ::
  "int \<Rightarrow> filesystem \<Rightarrow> string \<Rightarrow> string \<Rightarrow> error + string list \<times> console list"
where
  "GetHealthyUsers j fs method gender' =
     bind_err
       (if method = ''bmi'' then
          bind_err (UserStats_massLoadAndCompute j fs ''bmi_user_data.csv'' BmiMethod)
            (\<lambda>(userStats, out).
               Inr (map name (filter (\<lambda>user. gender user = gender'
                                          \<and> snd (bfp user) = ''Bmi: Normal'') userStats), out))
        else if method = ''USArmy'' then
          bind_err (UserStats_massLoadAndCompute j fs ''us_user_data.csv'' USNavyMethod)
            (\<lambda>(userStats, out).
               Inr (map name (filter (\<lambda>user. gender user = gender'
                                          \<and> snd (bfp user) = ''USNavy: Normal'') userStats), out))
        else Inr ([], []))
       (\<lambda>(healthyUsers, out).
          Inr (healthyUsers,
               out @ Cout (''Healthy Users ('' @ gender' @ '', '' @ method @ '' method):'')
                     # map Cout healthyUsers))"

text \<open>
  \<^verbatim>\<open>UserStats::GetFullStats\<close>. The counters are \<^verbatim>\<open>int\<close>; they count records of two files
  and are taken not to overflow. The two loops are those of the source, with the labels
  they compare with. The percentages are integer divisions by the sizes of the two
  lists: by zero when a list is empty, which is undefined in C++ and here the error
  \<open>DivisionByZero\<close>.
\<close>

record counters =
  maleCount :: int
  femaleCount :: int
  healthyBmiCount :: int
  healthyUsArmyCount :: int
  healthyMaleBmiCount :: int
  healthyFemaleBmiCount :: int
  healthyMaleUsArmyCount :: int
  healthyFemaleUsArmyCount :: int

definition zero_counters :: counters where
  "zero_counters =
     \<lparr>maleCount = 0, femaleCount = 0, healthyBmiCount = 0, healthyUsArmyCount = 0,
      healthyMaleBmiCount = 0, healthyFemaleBmiCount = 0, healthyMaleUsArmyCount = 0,
      healthyFemaleUsArmyCount = 0\<rparr>"

definition count_gender :: "UserInfo \<Rightarrow> counters \<Rightarrow> counters" where
  "count_gender user c =
     (if gender user = ''female'' then c\<lparr>femaleCount := femaleCount c + 1\<rparr>
      else if gender user = ''male'' then c\<lparr>maleCount := maleCount c + 1\<rparr>
      else c)"

fun bmi_loop :: "UserInfo list \<Rightarrow> counters \<Rightarrow> counters" where
  "bmi_loop [] c = c"
| "bmi_loop (user # users) c =
     (let c1 = count_gender user c;
          c2 = (if snd (bfp user) = ''Bmi: Normal'' then
                  (let c' = c1\<lparr>healthyBmiCount := healthyBmiCount c1 + 1\<rparr>
                   in if gender user = ''female''
                        then c'\<lparr>healthyFemaleBmiCount := healthyFemaleBmiCount c' + 1\<rparr>
                      else if gender user = ''male''
                        then c'\<lparr>healthyMaleBmiCount := healthyMaleBmiCount c' + 1\<rparr>
                      else c')
                else c1)
      in bmi_loop users c2)"

fun us_loop :: "UserInfo list \<Rightarrow> counters \<Rightarrow> counters" where
  "us_loop [] c = c"
| "us_loop (user # users) c =
     (let c1 = count_gender user c;
          c2 = (if snd (bfp user) = ''Bmi: Normal'' then
                  (let c' = c1\<lparr>healthyUsArmyCount := healthyUsArmyCount c1 + 1\<rparr>
                   in if gender user = ''female''
                        then c'\<lparr>healthyFemaleUsArmyCount := healthyFemaleUsArmyCount c' + 1\<rparr>
                      else if gender user = ''male''
                        then c'\<lparr>healthyMaleUsArmyCount := healthyMaleUsArmyCount c' + 1\<rparr>
                      else c')
                else c1)
      in us_loop users c2)"

definition GetFullStats :: "int \<Rightarrow> filesystem \<Rightarrow> error + console list" where
  "GetFullStats j fs =
     bind_err (UserStats_massLoadAndCompute j fs ''bmi_user_data.csv'' BmiMethod)
       (\<lambda>(bmiUserStats, out1).
     bind_err (UserStats_massLoadAndCompute j fs ''us_user_data.csv'' BmiMethod)
       (\<lambda>(usUserStats, out2).
          let totalUsers = int (length bmiUserStats) + int (length usUserStats);
              c = us_loop usUserStats (bmi_loop bmiUserStats zero_counters);
              bmiSize = int (length bmiUserStats);
              usSize = int (length usUserStats)
          in if totalUsers = 0 \<or> bmiSize = 0 \<or> usSize = 0 then Inl DivisionByZero
             else Inr (out1 @ out2 @
               [Cout (''total users: '' @ put_int totalUsers),
                Cout (''male/female percentage: '' @ put_int (maleCount c * 100 div totalUsers)
                      @ ''% / '' @ put_int (femaleCount c * 100 div totalUsers) @ ''%''),
                Cout (''healty bmi: '' @ put_int (healthyBmiCount c * 100 div bmiSize) @ ''%''),
                Cout (''healty bmi male/female: ''
                      @ put_int (healthyMaleBmiCount c * 100 div bmiSize) @ ''% / ''
                      @ put_int (healthyFemaleBmiCount c * 100 div bmiSize) @ ''%''),
                Cout (''healty us: '' @ put_int (healthyUsArmyCount c * 100 div usSize) @ ''%''),
                Cout (''healty us male/female: ''
                      @ put_int (healthyMaleUsArmyCount c * 100 div usSize) @ ''% / ''
                      @ put_int (healthyFemaleUsArmyCount c * 100 div usSize) @ ''%'')])))"

text \<open>
  What a line holds of a record: the nine fields that are written, the hip only for the
  gender \<^verbatim>\<open>female\<close>; the derived fields are those of a new record.
\<close>

definition persisted :: "UserInfo \<Rightarrow> UserInfo" where
  "persisted u =
     new_UserInfo\<lparr>name := name u, gender := gender u, age := age u, weight := weight u,
                  waist := waist u, neck := neck u,
                  hip := (if gender u = ''female'' then hip u else Fin 0),
                  height := height u, lifestyle := lifestyle u\<rparr>"

text \<open>The calories and the meal preparation that the statistics loader adds to a record.\<close>

definition derived :: "UserInfo \<Rightarrow> UserInfo" where
  "derived u = UserStats_getMealPrep (fst (UserStats_getDailyCalories u))"

section \<open>Example records\<close>

text \<open>Concrete records, used where a property is evaluated at an input.\<close>

definition ann :: UserInfo where
  "ann = new_UserInfo\<lparr>name := ''ann'', gender := ''female'', age := 30, weight := Fin 60,
                       waist := Fin 70, neck := Fin 32, hip := Fin 90, height := Fin 165,
                       lifestyle := ''active''\<rparr>"

definition bob :: UserInfo where
  "bob = new_UserInfo\<lparr>name := ''bob'', gender := ''male'', age := 52, weight := Fin 60,
                       waist := Fin 100, neck := Fin 35, height := Fin 165,
                       lifestyle := ''sedentary''\<rparr>"

definition cat :: UserInfo where
  "cat = new_UserInfo\<lparr>name := ''cat'', gender := ''female'', age := 25, weight := Fin 55,
                       waist := Fin 91, neck := Fin 36, hip := Fin 97, height := Fin 165,
                       lifestyle := ''active''\<rparr>"

text \<open>A record with a gender that only a file can bring in: the prompt accepts two.\<close>

definition pat :: UserInfo where
  "pat = new_UserInfo\<lparr>name := ''pat'', gender := ''other'', age := 30, weight := Fin 70,
                       waist := Fin 80, neck := Fin 35, height := Fin 175,
                       lifestyle := ''active''\<rparr>"

text \<open>The calories a record is given, as a function of the record.\<close>

definition calories_of :: "UserInfo \<Rightarrow> int" where
  "calories_of u = daily_calories (fst (HealthAssistant_getDailyCalories u))"

text \<open>Two one-line files under the names the statistics read.\<close>

definition stats_files :: filesystem where
  "stats_files =
     (\<lambda>_. NoFile)
       (''bmi_user_data.csv'' := Content (''ann,female,30,60,70,32,90.0,165,active'' @ [newline]),
        ''us_user_data.csv'' := Content (''rob,male,30,70,100,35,,175,active'' @ [newline]))"

definition rob :: UserInfo where
  "rob = new_UserInfo\<lparr>name := ''rob'', gender := ''male'', age := 30, weight := Fin 70,
                       waist := Fin 100, neck := Fin 35, height := Fin 175,
                       lifestyle := ''active''\<rparr>"


text \<open>A disk with one file, of size zero.\<close>

definition empty_disk :: filesystem where
  "empty_disk = (\<lambda>_. NoFile)(''empty.csv'' := Content [])"

section \<open>Properties of the derivations\<close>

subsection \<open>The copies in \<^verbatim>\<open>UserStats\<close> compute what the originals compute\<close>

lemma UserStats_usNavyMethod_eq: "UserStats_usNavyMethod j u = USNavyMethod_getBfp j u"
  by (simp add: UserStats_usNavyMethod_def USNavyMethod_getBfp_def)

lemma UserStats_bmiMethod_eq: "UserStats_bmiMethod j u = BmiMethod_getBfp j u"
  by (simp add: UserStats_bmiMethod_def BmiMethod_getBfp_def)

lemma UserStats_getDailyCalories_eq:
  "UserStats_getDailyCalories u = HealthAssistant_getDailyCalories u"
  by (simp add: UserStats_getDailyCalories_def HealthAssistant_getDailyCalories_def)

lemma UserStats_getMealPrep_eq: "UserStats_getMealPrep u = HealthAssistant_getMealPrep u"
  by (simp add: UserStats_getMealPrep_def HealthAssistant_getMealPrep_def)

subsection \<open>US Navy method outside its domain\<close>

text \<open>
  With a gender of the table and an age outside 20 to 79 the category stays empty, the
  message goes to \<^verbatim>\<open>std::cout\<close> and the converted formula value is stored.
\<close>

lemma usNavy_age_out_of_range:
  assumes "gender u = ''female'' \<or> gender u = ''male''" and "age u < 20 \<or> 79 < age u"
  shows "snd (bfp (fst (USNavyMethod_getBfp j u))) = []"
    and "snd (USNavyMethod_getBfp j u) = [Cout age_range_msg]"
    and "fst (bfp (fst (USNavyMethod_getBfp j u))) =
           static_cast_int j (if gender u = ''female'' then usnavy_female_bfp u
                              else usnavy_male_bfp u)"
  using assms by (auto simp: USNavyMethod_getBfp_def Let_def)

text \<open>
  Claim C4: for a record with age outside 20 to 79 or gender outside male and female the
  US Navy method leaves the category empty, reports the condition and may store a
  best-effort value. The code does not report a gender outside the table: on the record
  \<open>pat\<close>, whose gender is \<^verbatim>\<open>other\<close>, both copies of the method write nothing to the
  console, and the value they store is the indeterminate content of a local that was
  never assigned.
\<close>

theorem usNavy_unknown_gender_silent:
  "USNavyMethod_getBfp j pat = (pat\<lparr>bfp := (j, [])\<rparr>, []) \<and>
   UserStats_usNavyMethod j pat = (pat\<lparr>bfp := (j, [])\<rparr>, [])"
  by (simp add: USNavyMethod_getBfp_def UserStats_usNavyMethod_def pat_def new_UserInfo_def)

subsection \<open>The calorie table\<close>

text \<open>
  Claim C6: the daily calorie lookup returns the fixed table value for each recognised
  gender, age band and lifestyle (2400 for a female of 25 who is active, 2000 for a male
  of 55 who is sedentary), returns 0 with a message on \<^verbatim>\<open>std::cerr\<close> for an unrecognised
  gender, and returns 0 with no message for an age or lifestyle that the table of a
  recognised gender does not hold, such as an age below 19.
\<close>

theorem getDailyCalories_table:
  "(gender u = ''male'' \<longrightarrow>
      (19 \<le> age u \<and> age u \<le> 30 \<longrightarrow>
         (lifestyle u = ''sedentary'' \<longrightarrow> calories_of u = 2400) \<and>
         (lifestyle u = ''moderate'' \<longrightarrow> calories_of u = 2800) \<and>
         (lifestyle u = ''active'' \<longrightarrow> calories_of u = 3000)) \<and>
      (31 \<le> age u \<and> age u \<le> 50 \<longrightarrow>
         (lifestyle u = ''sedentary'' \<longrightarrow> calories_of u = 2200) \<and>
         (lifestyle u = ''moderate'' \<longrightarrow> calories_of u = 2600) \<and>
         (lifestyle u = ''active'' \<longrightarrow> calories_of u = 3000)) \<and>
      (50 < age u \<longrightarrow>
         (lifestyle u = ''sedentary'' \<longrightarrow> calories_of u = 2000) \<and>
         (lifestyle u = ''moderate'' \<longrightarrow> calories_of u = 2400) \<and>
         (lifestyle u = ''active'' \<longrightarrow> calories_of u = 2800))) \<and>
   (gender u = ''female'' \<longrightarrow>
      (19 \<le> age u \<and> age u \<le> 30 \<longrightarrow>
         (lifestyle u = ''sedentary'' \<longrightarrow> calories_of u = 2000) \<and>
         (lifestyle u = ''moderate'' \<longrightarrow> calories_of u = 2200) \<and>
         (lifestyle u = ''active'' \<longrightarrow> calories_of u = 2400)) \<and>
      (31 \<le> age u \<and> age u \<le> 50 \<longrightarrow>
         (lifestyle u = ''sedentary'' \<longrightarrow> calories_of u = 1800) \<and>
         (lifestyle u = ''moderate'' \<longrightarrow> calories_of u = 2000) \<and>
         (lifestyle u = ''active'' \<longrightarrow> calories_of u = 2200)) \<and>
      (50 < age u \<longrightarrow>
         (lifestyle u = ''sedentary'' \<longrightarrow> calories_of u = 1600) \<and>
         (lifestyle u = ''moderate'' \<longrightarrow> calories_of u = 1800) \<and>
         (lifestyle u = ''active'' \<longrightarrow> calories_of u = 2200))) \<and>
   (gender u \<noteq> ''male'' \<and> gender u \<noteq> ''female'' \<longrightarrow>
      calories_of u = 0 \<and> snd (HealthAssistant_getDailyCalories u) = [Cerr calorie_msg]) \<and>
   (gender u = ''male'' \<or> gender u = ''female'' \<longrightarrow>
      snd (HealthAssistant_getDailyCalories u) = [] \<and>
      (age u < 19 \<or> (lifestyle u \<noteq> ''sedentary'' \<and> lifestyle u \<noteq> ''moderate''
                      \<and> lifestyle u \<noteq> ''active'') \<longrightarrow> calories_of u = 0)) \<and>
   UserStats_getDailyCalories u = HealthAssistant_getDailyCalories u"
  unfolding calories_of_def UserStats_getDailyCalories_eq
  by (simp add: HealthAssistant_getDailyCalories_def)

theorem getDailyCalories_table_witness:
  "calories_of (new_UserInfo\<lparr>gender := ''female'', age := 25, lifestyle := ''active''\<rparr>) = 2400 \<and>
   calories_of (new_UserInfo\<lparr>gender := ''male'', age := 55, lifestyle := ''sedentary''\<rparr>) = 2000 \<and>
   calories_of (new_UserInfo\<lparr>gender := ''male'', age := 18, lifestyle := ''active''\<rparr>) = 0 \<and>
   snd (HealthAssistant_getDailyCalories
          (new_UserInfo\<lparr>gender := ''male'', age := 18, lifestyle := ''active''\<rparr>)) = [] \<and>
   calories_of pat = 0 \<and> snd (HealthAssistant_getDailyCalories pat) = [Cerr calorie_msg]"
  using
    getDailyCalories_table
      [of "new_UserInfo\<lparr>gender := ''female'', age := 25, lifestyle := ''active''\<rparr>"]
    getDailyCalories_table
      [of "new_UserInfo\<lparr>gender := ''male'', age := 55, lifestyle := ''sedentary''\<rparr>"]
    getDailyCalories_table
      [of "new_UserInfo\<lparr>gender := ''male'', age := 18, lifestyle := ''active''\<rparr>"]
    getDailyCalories_table [of pat]
  by (simp add: pat_def)

subsection \<open>The BMI method\<close>




subsection \<open>What each derivation writes\<close>

text \<open>
  Claim C10: each derivation writes its own derived fields and no other field. Both
  copies of the US Navy method and of the BMI method return the record with only
  \<open>bfp\<close> replaced, the calorie lookup the record with only \<open>daily_calories\<close> replaced,
  the meal preparation the record with only \<open>carbs\<close>, \<open>protein\<close> and \<open>fat\<close> replaced;
  so the name, gender, age, weight, waist, neck, hip, height and lifestyle are never
  changed.
\<close>

theorem derivations_frame:
  "fst (USNavyMethod_getBfp j u) = u\<lparr>bfp := bfp (fst (USNavyMethod_getBfp j u))\<rparr> \<and>
   fst (UserStats_usNavyMethod j u) = u\<lparr>bfp := bfp (fst (UserStats_usNavyMethod j u))\<rparr> \<and>
   BmiMethod_getBfp j u = u\<lparr>bfp := bfp (BmiMethod_getBfp j u)\<rparr> \<and>
   UserStats_bmiMethod j u = u\<lparr>bfp := bfp (UserStats_bmiMethod j u)\<rparr> \<and>
   fst (HealthAssistant_getDailyCalories u) =
     u\<lparr>daily_calories := daily_calories (fst (HealthAssistant_getDailyCalories u))\<rparr> \<and>
   fst (UserStats_getDailyCalories u) =
     u\<lparr>daily_calories := daily_calories (fst (UserStats_getDailyCalories u))\<rparr> \<and>
   HealthAssistant_getMealPrep u =
     u\<lparr>carbs := carbs (HealthAssistant_getMealPrep u),
       protein := protein (HealthAssistant_getMealPrep u),
       fat := fat (HealthAssistant_getMealPrep u)\<rparr> \<and>
   UserStats_getMealPrep u =
     u\<lparr>carbs := carbs (UserStats_getMealPrep u),
       protein := protein (UserStats_getMealPrep u),
       fat := fat (UserStats_getMealPrep u)\<rparr>"
  by (simp add: USNavyMethod_getBfp_def UserStats_usNavyMethod_def BmiMethod_getBfp_def
      UserStats_bmiMethod_def HealthAssistant_getDailyCalories_def
      UserStats_getDailyCalories_def HealthAssistant_getMealPrep_def
      UserStats_getMealPrep_def Let_def)

section \<open>Properties of the registry\<close>

lemma delete_pos_absent: "\<forall>v \<in> set l. name v \<noteq> n \<Longrightarrow> delete_pos l n = length l"
  by (induction l) auto

lemma delete_pos_first:
  "\<forall>v \<in> set xs. name v \<noteq> name u \<Longrightarrow> delete_pos (xs @ u # ys) (name u) = length xs"
  by (induction xs) auto

lemma deleteUser_absent: "\<forall>v \<in> set l. name v \<noteq> n \<Longrightarrow> deleteUser l n = l"
  by (simp add: deleteUser_def delete_pos_absent)

lemma deleteUser_first:
  "\<forall>v \<in> set xs. name v \<noteq> name u \<Longrightarrow> deleteUser (xs @ u # ys) (name u) = xs @ ys"
  by (simp add: deleteUser_def delete_pos_first)

lemma deleteUser_cases:
  "deleteUser l n = l \<and> (\<forall>v \<in> set l. name v \<noteq> n) \<or>
   (\<exists>xs u ys. l = xs @ u # ys \<and> name u = n \<and> (\<forall>v \<in> set xs. name v \<noteq> n) \<and>
      deleteUser l n = xs @ ys)"
proof (cases "\<forall>v \<in> set l. name v \<noteq> n")
  case True
  then show ?thesis by (simp add: deleteUser_absent)
next
  case False
  then have "\<exists>v \<in> set l. name v = n" by blast
  from split_list_first_prop [OF this]
  obtain xs u ys where s: "l = xs @ u # ys" "name u = n" "\<forall>v \<in> set xs. name v \<noteq> n"
    by blast
  then have "deleteUser l n = xs @ ys"
    using deleteUser_first [of xs u ys] by simp
  with s show ?thesis by blast
qed

text \<open>
  Claim C9: adding appends at the end of the sequence, and deleting removes exactly the
  first record with the given name and changes nothing, without an error, when no record
  has it; what is left keeps its order. After adding three records and deleting the
  middle one by its name (which the first does not share), the first and the third are
  left, in that order.
\<close>

theorem registry_add_delete:
  "addUserInfo l u = l @ [u] \<and>
   ((\<forall>v \<in> set xs. name v \<noteq> name u) \<longrightarrow> deleteUser (xs @ u # ys) (name u) = xs @ ys) \<and>
   ((\<forall>v \<in> set l. name v \<noteq> n) \<longrightarrow> deleteUser l n = l) \<and>
   (deleteUser l n = l \<and> (\<forall>v \<in> set l. name v \<noteq> n) \<or>
    (\<exists>xs u ys. l = xs @ u # ys \<and> name u = n \<and> (\<forall>v \<in> set xs. name v \<noteq> n) \<and>
       deleteUser l n = xs @ ys)) \<and>
   (name a \<noteq> name b \<longrightarrow>
      deleteUser (addUserInfo (addUserInfo (addUserInfo [] a) b) c) (name b) = [a, c])"
proof -
  have "deleteUser ([a] @ b # [c]) (name b) = [a] @ [c]" if "name a \<noteq> name b"
    using that by (intro deleteUser_first) simp
  then show ?thesis
    using deleteUser_cases [of l n]
    by (simp add: addUserInfo_def deleteUser_first deleteUser_absent)
qed

theorem registry_add_delete_witness:
  "name ann \<noteq> name bob \<and>
   addUserInfo (addUserInfo (addUserInfo [] ann) bob) cat = [ann, bob, cat] \<and>
   deleteUser (addUserInfo (addUserInfo (addUserInfo [] ann) bob) cat) ''bob'' = [ann, cat] \<and>
   deleteUser [ann, cat] ''bob'' = [ann, cat]"
proof -
  have n: "name ann = ''ann''" "name bob = ''bob''" "name cat = ''cat''"
    by (simp_all add: ann_def bob_def cat_def new_UserInfo_def)
  have d: "\<forall>v \<in> set [ann, cat]. name v \<noteq> ''bob''"
    by (simp add: n)
  from registry_add_delete [of "[]" ann "[]" "[]" "''bob''" ann bob cat]
  have "name ann \<noteq> name bob \<longrightarrow>
      deleteUser (addUserInfo (addUserInfo (addUserInfo [] ann) bob) cat) (name bob) = [ann, cat]"
    by blast
  then have 1: "deleteUser (addUserInfo (addUserInfo (addUserInfo [] ann) bob) cat) ''bob'' = [ann, cat]"
    by (simp add: n)
  from registry_add_delete [of "[ann, cat]" ann "[]" "[]" "''bob''" ann bob cat] d
  have 2: "deleteUser [ann, cat] ''bob'' = [ann, cat]"
    by blast
  from 1 2 show ?thesis
    by (simp add: n addUserInfo_def)
qed

subsection \<open>Lookup by name\<close>

lemma find_user_None: "find_user l n = None \<longleftrightarrow> (\<forall>v \<in> set l. name v \<noteq> n)"
  by (induction l) auto


lemma getUserInfo_absent:
  "\<forall>v \<in> set l. name v \<noteq> n \<Longrightarrow>
   getUserInfo l n = (None, [Cerr (if l = [] then ''no user in list'' else ''user not found'')])"
  using find_user_None [of l n] by (simp add: getUserInfo_def)


text \<open>
  Claim C2: for a name that no stored record has, the operations by name are not fatal:
  the condition is reported, an absent value is returned, the registry is unchanged and
  execution continues. In the code \<^verbatim>\<open>getUserInfo\<close> does report and return \<^verbatim>\<open>nullptr\<close>,
  but each of the four operations by name then reads a field through that pointer: for
  every registry and every name without a match they end in the fault, and no registry
  comes back.
\<close>

theorem by_name_not_found_faults:
  assumes "\<forall>v \<in> set l. name v \<noteq> n"
  shows "fst (USNavyMethod_getBfp_name j l n) = Inl NullDereference \<and>
         fst (BmiMethod_getBfp_name j l n) = Inl NullDereference \<and>
         fst (getDailyCalories_name l n) = Inl NullDereference \<and>
         fst (getMealPrep_name l n) = Inl NullDereference \<and>
         getUserInfo l n =
           (None, [Cerr (if l = [] then ''no user in list'' else ''user not found'')])"
  using getUserInfo_absent [OF assms]
  by (simp add: USNavyMethod_getBfp_name_def BmiMethod_getBfp_name_def
      getDailyCalories_name_def getMealPrep_name_def)

theorem by_name_not_found_faults_witness:
  "find_user [] ''john'' = None \<and>
   fst (USNavyMethod_getBfp_name 0 [] ''john'') = Inl NullDereference \<and>
   fst (getDailyCalories_name [] ''john'') = Inl NullDereference \<and>
   fst (getMealPrep_name [] ''john'') = Inl NullDereference \<and>
   getUserInfo [] ''john'' = (None, [Cerr ''no user in list''])"
  using by_name_not_found_faults [of "[]" "''john''" 0]
  by simp

section \<open>Properties of the text format\<close>

text \<open>The equations that evaluate the conversions on a given number or text.\<close>

lemmas put_defs = digits_of_nat.simps log10_up.simps log10_down.simps put_double_def
  put_positive_def floor_log10_def scale10_def round_half_even_def with_point_def
  strip_zeros_def digit_char_def put_int_def double_to_string_def fixed_positive_def
  pad_zeros_def

lemmas get_defs = stod_def stoi_def is_space_def special_float_def hex_float_def
  decimal_float_def lower_def is_digit_def digit_val_def xdigit_val_def position_def
  exponent_part_def INT_MIN_def
  INT_MAX_def

subsection \<open>Integers are read back as written\<close>

lemma below_ten:
  "(k::nat) < 10 \<Longrightarrow>
   k = 0 \<or> k = 1 \<or> k = 2 \<or> k = 3 \<or> k = 4 \<or> k = 5 \<or> k = 6 \<or> k = 7 \<or> k = 8 \<or> k = 9"
  by arith

lemma digit_char_is_digit: "is_digit (digit_char d)"
proof -
  have "d mod 10 < 10" by simp
  from below_ten [OF this] show ?thesis
    unfolding digit_char_def is_digit_def by (elim disjE) simp_all
qed


lemma digits_of_nat_digits: "\<forall>c \<in> set (digits_of_nat n). is_digit c"
proof (induction n rule: digits_of_nat.induct)
  case (1 n)
  show ?case
  proof (cases "n < 10")
    case True
    then show ?thesis
      by (subst digits_of_nat.simps) (simp add: digit_char_is_digit)
  next
    case False
    with 1 show ?thesis
      by (subst digits_of_nat.simps) (simp add: digit_char_is_digit)
  qed
qed

lemma digits_of_nat_nonempty: "digits_of_nat n \<noteq> []"
  by (subst digits_of_nat.simps) simp









subsection \<open>Printed numbers hold no comma\<close>

lemma is_digit_numeric: "is_digit c \<Longrightarrow> numeric_char c"
  by (auto simp: is_digit_def numeric_char_def)

lemma digits_of_nat_numeric: "c \<in> set (digits_of_nat n) \<Longrightarrow> numeric_char c"
  using digits_of_nat_digits [of n] by (simp add: is_digit_numeric)

lemma set_strip_zeros: "c \<in> set (strip_zeros ds) \<Longrightarrow> c \<in> set ds"
  by (auto simp: strip_zeros_def dest: set_dropWhileD)

lemma set_with_point:
  "c \<in> set (with_point a b) \<Longrightarrow> c = CHR ''.'' \<or> c \<in> set a \<or> c \<in> set b"
  by (auto simp: with_point_def split: if_splits)

lemma point_numeric: "numeric_char (CHR ''.'')" "numeric_char (CHR ''0'')"
  "numeric_char (CHR ''e'')" "numeric_char (CHR ''-'')" "numeric_char (CHR ''+'')"
  by (simp_all add: numeric_char_def)

lemma hd_digits_numeric: "numeric_char (hd (digits_of_nat n))"
  using list.set_sel(1) [OF digits_of_nat_nonempty, of n] by (rule digits_of_nat_numeric)

lemma tl_digits_numeric: "c \<in> set (tl (digits_of_nat n)) \<Longrightarrow> numeric_char c"
  using list.set_sel(2) [OF digits_of_nat_nonempty, of c n] by (simp add: digits_of_nat_numeric)

lemma put_positive_numeric: "c \<in> set (put_positive x) \<Longrightarrow> numeric_char c"
  unfolding put_positive_def Let_def
  by (auto simp: point_numeric hd_digits_numeric split: if_splits
      dest!: set_with_point set_strip_zeros in_set_takeD in_set_dropD
      dest: digits_of_nat_numeric tl_digits_numeric)


lemma put_double_numeric: "c \<in> set (put_double d) \<Longrightarrow> numeric_char c"
  by (cases d) (auto simp: put_double_def numeric_char_def [of "CHR ''0''"]
      numeric_char_def [of "CHR ''-''"] numeric_char_def [of "CHR ''i''"]
      numeric_char_def [of "CHR ''n''"] numeric_char_def [of "CHR ''f''"]
      numeric_char_def [of "CHR ''a''"] split: if_splits dest: put_positive_numeric)

lemma fixed_positive_numeric: "c \<in> set (fixed_positive x p) \<Longrightarrow> numeric_char c"
  unfolding fixed_positive_def Let_def pad_zeros_def
  by (auto simp: point_numeric split: if_splits dest!: set_with_point
      dest: digits_of_nat_numeric)

lemma double_to_string_numeric: "c \<in> set (double_to_string d p) \<Longrightarrow> numeric_char c"
  by (cases d) (auto simp: double_to_string_def numeric_char_def [of "CHR ''-''"]
      numeric_char_def [of "CHR ''i''"] numeric_char_def [of "CHR ''n''"]
      numeric_char_def [of "CHR ''f''"] numeric_char_def [of "CHR ''a''"]
      split: if_splits dest: fixed_positive_numeric)

lemma put_int_numeric: "c \<in> set (put_int n) \<Longrightarrow> numeric_char c"
  by (auto simp: put_int_def point_numeric split: if_splits dest: digits_of_nat_numeric)





subsection \<open>A line is read back field by field\<close>



lemma getline_rest:
  "delim \<notin> set a \<Longrightarrow> getline_delim (a, True) str delim = (a, ([], False))"
  by (simp add: getline_delim_def)


subsection \<open>The conversions on given numbers\<close>

lemma put_int_examples:
  "put_int 0 = ''0''" "put_int 2 = ''2''" "put_int 30 = ''30''" "put_int 41 = ''41''"
  "put_int 50 = ''50''" "put_int 100 = ''100''"
  by (simp_all add: put_int_def digits_of_nat.simps digit_char_def)









lemma stod_examples:
  "stod ''0'' = Inr (Fin 0)" "stod ''32'' = Inr (Fin 32)" "stod ''34'' = Inr (Fin 34)"
  "stod ''35'' = Inr (Fin 35)" "stod ''60'' = Inr (Fin 60)" "stod ''70'' = Inr (Fin 70)"
  "stod ''80'' = Inr (Fin 80)" "stod ''100'' = Inr (Fin 100)" "stod ''165'' = Inr (Fin 165)"
  "stod ''170'' = Inr (Fin 170)" "stod ''175'' = Inr (Fin 175)"
  "stod ''90.0'' = Inr (Fin 90)" "stod ''97.3'' = Inr (Fin 97.3)"
  "stod ''72.1235'' = Inr (Fin 72.1235)"
  by (simp_all add: get_defs scale10_def)

lemma stoi_examples: "stoi ''30'' = Inr 30" "stoi ''41'' = Inr 41"
  by (simp_all add: get_defs)

lemma ann_fields:
  "name ann = ''ann''" "gender ann = ''female''" "lifestyle ann = ''active''" "age ann = 30"
  "weight ann = Fin 60" "waist ann = Fin 70" "neck ann = Fin 32" "hip ann = Fin 90"
  "height ann = Fin 165"
  by (simp_all add: ann_def new_UserInfo_def)

lemma rob_fields:
  "name rob = ''rob''" "gender rob = ''male''" "lifestyle rob = ''active''" "age rob = 30"
  "weight rob = Fin 70" "waist rob = Fin 100" "neck rob = Fin 35" "hip rob = Fin 0"
  "height rob = Fin 175"
  by (simp_all add: rob_def new_UserInfo_def)




lemma getline_comma: "getline_delim (s, True) str (CHR '','') =
    (if CHR '','' \<in> set s
     then (takeWhile (\<lambda>c. c \<noteq> CHR '','') s, (tl (dropWhile (\<lambda>c. c \<noteq> CHR '','') s), True))
     else (s, ([], False)))"
  by (simp add: getline_delim_def)



section \<open>Properties of the readers\<close>

text \<open>
  Claim C5: for every file name, reading fails with the error of a source that cannot be
  opened when the file is not there or cannot be opened, and with the error of an empty
  source when it is there with no content. This holds for \<^verbatim>\<open>readFromFile\<close> and for both
  bulk loaders; the two errors differ for every file name, and in neither case does the
  reader return a list of records.
\<close>

theorem source_failures:
  "(fs filename = NoFile \<or> fs filename = Denied \<longrightarrow>
      readFromFile fs filename l =
        Inl (RuntimeError
               (''Cannot open file as it may not exist or cannot be opened: '' @ filename)) \<and>
      HealthAssistant_massLoadAndCompute t j fs filename l =
        Inl (RuntimeError
               (''Cannot open file as it may not exist or cannot be opened: '' @ filename)) \<and>
      UserStats_massLoadAndCompute j fs filename t =
        Inl (RuntimeError
               (''Cannot open file as it may not exist or cannot be opened: '' @ filename))) \<and>
   (fs filename = Content [] \<longrightarrow>
      readFromFile fs filename l = Inl (RuntimeError (''File is empty: '' @ filename)) \<and>
      HealthAssistant_massLoadAndCompute t j fs filename l =
        Inl (RuntimeError (''File is empty: '' @ filename)) \<and>
      UserStats_massLoadAndCompute j fs filename t =
        Inl (RuntimeError (''File is empty: '' @ filename))) \<and>
   RuntimeError (''Cannot open file as it may not exist or cannot be opened: '' @ filename)
     \<noteq> RuntimeError (''File is empty: '' @ filename)"
  by (auto simp: readFromFile_def HealthAssistant_massLoadAndCompute_def
      UserStats_massLoadAndCompute_def open_source_def bind_err_def)

theorem source_failures_witness:
  "empty_disk ''missing.csv'' = NoFile \<and> empty_disk ''empty.csv'' = Content [] \<and>
   readFromFile empty_disk ''missing.csv'' [] =
     Inl (RuntimeError
            ''Cannot open file as it may not exist or cannot be opened: missing.csv'') \<and>
   UserStats_massLoadAndCompute 0 empty_disk ''missing.csv'' BmiMethod =
     Inl (RuntimeError
            ''Cannot open file as it may not exist or cannot be opened: missing.csv'') \<and>
   readFromFile empty_disk ''empty.csv'' [] = Inl (RuntimeError ''File is empty: empty.csv'') \<and>
   UserStats_massLoadAndCompute 0 empty_disk ''empty.csv'' BmiMethod =
     Inl (RuntimeError ''File is empty: empty.csv'')"
proof -
  have m: "empty_disk ''missing.csv'' = NoFile" and e: "empty_disk ''empty.csv'' = Content []"
    by (simp_all add: empty_disk_def)
  from source_failures [of empty_disk "''missing.csv''" "[]" BmiMethod 0] m
    source_failures [of empty_disk "''empty.csv''" "[]" BmiMethod 0] e
  show ?thesis by simp
qed

text \<open>
  A file that is opened and not empty has a first line, and each line that is read adds
  one record: the lists that \<^verbatim>\<open>GetFullStats\<close> divides by are not empty unless one of
  its two sources is a directory.
\<close>

lemma file_lines_nonempty: "acc \<noteq> [] \<or> c \<noteq> [] \<Longrightarrow> file_lines acc c \<noteq> []"
  by (induction c arbitrary: acc) auto

lemma open_source_nonempty:
  "fs filename \<noteq> Directory \<Longrightarrow> open_source fs filename = Inr lns \<Longrightarrow> lns \<noteq> []"
  by (auto simp: open_source_def file_lines_nonempty split: disk_file.splits if_splits)

lemma stats_records_length:
  "stats_records t j lns l out = Inr (l', out') \<Longrightarrow> length l' = length l + length lns"
proof (induction lns arbitrary: l out)
  case Nil
  then show ?case by simp
next
  case (Cons row rows)
  then show ?case
    by (auto simp: Let_def split: sum.splits prod.splits)
qed

lemma massLoadAndCompute_nonempty:
  assumes "fs filename \<noteq> Directory"
    and "UserStats_massLoadAndCompute j fs filename t = Inr (l, out)"
  shows "l \<noteq> []"
proof -
  from assms(2) obtain lns where o: "open_source fs filename = Inr lns"
    and s: "stats_records t j lns [] [] = Inr (l, out)"
    by (auto simp: UserStats_massLoadAndCompute_def bind_err_def split: sum.splits)
  from open_source_nonempty [OF assms(1) o] stats_records_length [OF s] show ?thesis
    by auto
qed

lemma massLoadAndCompute_directory:
  "fs filename = Directory \<Longrightarrow> UserStats_massLoadAndCompute j fs filename t = Inr ([], [])"
  by (simp add: UserStats_massLoadAndCompute_def open_source_def bind_err_def)

text \<open>
  The only errors of a line are those of \<^verbatim>\<open>std::stoi\<close> and \<^verbatim>\<open>std::stod\<close>, so the
  statistics do not divide by zero when neither source is a directory, and do when the
  first one is.
\<close>

lemma stoi_error: "stoi s = Inl e \<Longrightarrow> e = InvalidArgument ''stoi'' \<or> e = OutOfRange ''stoi''"
  by (auto simp: stoi_def Let_def split: prod.splits if_splits)

lemma stod_error: "stod s = Inl e \<Longrightarrow> e = InvalidArgument ''stod''"
  by (auto simp: stod_def Let_def split: prod.splits option.splits)

lemma bind_err_Inl:
  "bind_err r f = Inl e \<longleftrightarrow> r = Inl e \<or> (\<exists>v. r = Inr v \<and> f v = Inl e)"
  by (cases r) (simp_all add: bind_err_def)

lemma parse_line_error:
  assumes "parse_line row = Inl e"
  shows "e = InvalidArgument ''stoi'' \<or> e = OutOfRange ''stoi'' \<or> e = InvalidArgument ''stod''"
  using assms unfolding parse_line_def Let_def split_beta bind_err_Inl
  by (auto dest: stoi_error stod_error split: if_splits)

lemma stats_records_error:
  "stats_records t j lns l out = Inl e \<Longrightarrow>
   e = InvalidArgument ''stoi'' \<or> e = OutOfRange ''stoi'' \<or> e = InvalidArgument ''stod''"
proof (induction lns arbitrary: l out)
  case Nil
  then show ?case by simp
next
  case (Cons row lns)
  show ?case
  proof (cases "parse_line row")
    case (Inl e')
    with Cons.prems have "e = e'" by simp
    with Inl parse_line_error show ?thesis by blast
  next
    case (Inr u)
    with Cons.prems obtain l' out' where "stats_records t j lns l' out' = Inl e"
      by (auto simp: Let_def split_beta)
    then show ?thesis by (rule Cons.IH)
  qed
qed

lemma GetFullStats_divides:
  assumes "fs ''bmi_user_data.csv'' \<noteq> Directory" and "fs ''us_user_data.csv'' \<noteq> Directory"
  shows "GetFullStats j fs \<noteq> Inl DivisionByZero"
proof -
  let ?b = "UserStats_massLoadAndCompute j fs ''bmi_user_data.csv'' BmiMethod"
  let ?u = "UserStats_massLoadAndCompute j fs ''us_user_data.csv'' BmiMethod"
  have n: "UserStats_massLoadAndCompute j fs f t \<noteq> Inl DivisionByZero" for f t
    by (auto simp: UserStats_massLoadAndCompute_def bind_err_Inl open_source_def
        split: disk_file.splits if_splits dest: stats_records_error)
  show ?thesis
  proof (cases ?b)
    case (Inl e)
    then have "GetFullStats j fs = Inl e"
      by (simp add: GetFullStats_def bind_err_def)
    with Inl n [of "''bmi_user_data.csv''" BmiMethod] show ?thesis by auto
  next
    case b: (Inr p)
    obtain bs o1 where p: "p = (bs, o1)" by (cases p)
    show ?thesis
    proof (cases ?u)
      case (Inl e)
      with b have "GetFullStats j fs = Inl e"
        by (simp add: GetFullStats_def bind_err_def p)
      with Inl n [of "''us_user_data.csv''" BmiMethod] show ?thesis by auto
    next
      case u: (Inr q)
      obtain us o2 where q: "q = (us, o2)" by (cases q)
      from b p have "bs \<noteq> []" by (auto dest: massLoadAndCompute_nonempty [of fs "''bmi_user_data.csv''", OF assms(1)])
      moreover from u q have "us \<noteq> []" by (auto dest: massLoadAndCompute_nonempty [of fs "''us_user_data.csv''", OF assms(2)])
      ultimately have "int (length bs) + int (length us) \<noteq> 0" "bs \<noteq> []" "us \<noteq> []"
        by (cases bs, simp_all)
      then show ?thesis
        using b u by (simp add: GetFullStats_def bind_err_def p q Let_def)
    qed
  qed
qed

lemma GetFullStats_directory:
  assumes "fs ''bmi_user_data.csv'' = Directory" and "fs ''us_user_data.csv'' = Directory"
  shows "GetFullStats j fs = Inl DivisionByZero"
  using assms
  by (simp add: GetFullStats_def massLoadAndCompute_directory bind_err_def)

subsection \<open>Writing a registry and reading it back\<close>

text \<open>
  A registry written to a new file is read back record by record, each as its line
  gives it, when no name, gender or lifestyle holds a newline.
\<close>

lemma newline_not_numeric: "\<not> numeric_char newline"
  by (simp add: numeric_char_def newline_def)

lemma no_newline:
  "newline \<notin> set (put_int n)" "newline \<notin> set (put_double d)"
  "newline \<notin> set (double_to_string d p)"
  using newline_not_numeric put_int_numeric put_double_numeric double_to_string_numeric
  by blast+

lemma encode_line_no_newline:
  assumes "newline \<notin> set (name u)" and "newline \<notin> set (gender u)"
    and "newline \<notin> set (lifestyle u)"
  shows "newline \<notin> set (encode_line u)"
proof -
  have "newline \<noteq> CHR '',''" by (simp add: newline_def)
  with assms show ?thesis by (simp add: encode_line_def no_newline)
qed

lemma file_lines_row:
  "newline \<notin> set r \<Longrightarrow> file_lines acc (r @ newline # rest) = (rev acc @ r) # file_lines [] rest"
  by (induction r arbitrary: acc) auto

lemma file_lines_rows:
  "\<forall>r \<in> set rows. newline \<notin> set r \<Longrightarrow>
   file_lines [] (concat (map (\<lambda>r. r @ [newline]) rows)) = rows"
  by (induction rows) (simp_all add: file_lines_row)

lemma read_records_rows:
  "\<forall>u \<in> set l. parse_line (encode_line u) = Inr (persisted u) \<Longrightarrow>
   read_records (map encode_line l) acc out =
     Inr (acc @ map persisted l, out @ map (\<lambda>u. Cout (encode_line u)) l)"
  by (induction l arbitrary: acc out) simp_all

lemma file_roundtrip:
  assumes "fs filename = NoFile" and "l \<noteq> []"
    and "\<forall>u \<in> set l. newline \<notin> set (name u) \<and> newline \<notin> set (gender u)
           \<and> newline \<notin> set (lifestyle u)"
    and "\<forall>u \<in> set l. parse_line (encode_line u) = Inr (persisted u)"
  shows "readFromFile (fst (writeToFile fs filename l)) filename [] =
           Inr (map persisted l, map (\<lambda>u. Cout (encode_line u)) l)"
proof -
  let ?c = "concat (map (\<lambda>user. encode_line user @ [newline]) l)"
  have w: "fst (writeToFile fs filename l) filename = Content ?c"
    using assms(1) by (simp add: writeToFile_def)
  have n: "?c \<noteq> []"
    using assms(2) by (cases l) simp_all
  have "?c = concat (map (\<lambda>r. r @ [newline]) (map encode_line l))"
    by (simp add: comp_def)
  moreover have "\<forall>r \<in> set (map encode_line l). newline \<notin> set r"
    using assms(3) by (auto simp: encode_line_no_newline)
  ultimately have "file_lines [] ?c = map encode_line l"
    by (simp only: file_lines_rows)
  then have "open_source (fst (writeToFile fs filename l)) filename = Inr (map encode_line l)"
    using w n by (simp add: open_source_def)
  then show ?thesis
    using read_records_rows [OF assms(4), of "[]" "[]"]
    by (simp add: readFromFile_def bind_err_def)
qed

section \<open>Properties of the statistics\<close>

subsection \<open>Bounds on two logarithms\<close>

lemma log_lower: "0 < x \<Longrightarrow> (10::real) ^ p < x ^ q \<Longrightarrow> real p < real q * log 10 x"
proof -
  assume x: "0 < x" and l: "(10::real) ^ p < x ^ q"
  have "log 10 (10 ^ p) < log 10 (x ^ q)"
    using l x by (subst log_less_cancel_iff) simp_all
  then show ?thesis
    using x by (simp add: log_nat_power)
qed

lemma log_upper: "0 < x \<Longrightarrow> x ^ q < (10::real) ^ p \<Longrightarrow> real q * log 10 x < real p"
proof -
  assume x: "0 < x" and l: "x ^ q < (10::real) ^ p"
  have "log 10 (x ^ q) < log 10 (10 ^ p)"
    using l x by (subst log_less_cancel_iff) simp_all
  then show ?thesis
    using x by (simp add: log_nat_power)
qed

lemma log_65: "9 / 5 < log 10 65" "log 10 65 < 2"
  using log_lower [of 65 9 5] log_upper [of 65 1 2] by simp_all

lemma log_175: "2 < log 10 175" "log 10 175 < 9 / 4"
  using log_lower [of 175 2 1] log_upper [of 175 4 9] by simp_all

subsection \<open>The example files\<close>

lemma parse_rob: "parse_line ''rob,male,30,70,100,35,,175,active'' = Inr rob"
  by (simp add: parse_line_def getline_comma getline_rest bind_err_def stoi_examples
      stod_examples rob_def new_UserInfo_def newline_def)

lemma parse_ann: "parse_line ''ann,female,30,60,70,32,90.0,165,active'' = Inr ann"
  by (simp add: parse_line_def getline_comma getline_rest bind_err_def stoi_examples
      stod_examples ann_def new_UserInfo_def newline_def)

lemma rob_usnavy: "\<exists>v. usnavy_male_bfp rob = Fin v \<and> 25 \<le> v \<and> v < 100"
proof -
  define D :: real where "D = 1.0324 - 0.19077 * log 10 65 + 0.15456 * log 10 175"
  have D: "D = 10324 / 10000 - 19077 / 100000 * log 10 65 + 15456 / 100000 * log 10 175"
    by (simp add: D_def)
  have lo: "9 / 10 < D"
    using log_65 log_175 unfolding D by linarith
  have hi: "D < 104 / 100"
    using log_65 log_175 unfolding D by linarith
  have e: "usnavy_male_bfp rob = Fin (495 / D - 450)"
    using lo by (simp add: usnavy_male_bfp_def rob_def new_UserInfo_def D_def)
  have "475 * D < 495" using hi by linarith
  then have "475 < 495 / D" using lo by (simp add: pos_less_divide_eq)
  moreover have "495 < 550 * D" using lo by linarith
  then have "495 / D < 550" using lo by (simp add: pos_divide_less_eq)
  ultimately show ?thesis using e by simp
qed

lemma rob_usnavy_category:
  "snd (bfp (fst (UserStats_usNavyMethod j rob))) = ''USNavy: Very High''"
proof -
  from rob_usnavy obtain v where v: "usnavy_male_bfp rob = Fin v" "25 \<le> v" by blast
  note g = rob_fields(2) rob_fields(4)
  show ?thesis
    using v by (simp add: UserStats_usNavyMethod_def g Let_def usnavy_bands_def)
qed

lemma rob_bmi: "bfp (UserStats_bmiMethod j rob) = (22, ''Bmi: Normal'')"
  by (simp add: UserStats_bmiMethod_def bmi_value_def bmi_bands_def static_cast_int_def
      trunc_real_def INT_MIN_def INT_MAX_def rob_def new_UserInfo_def Let_def)

lemma ann_bmi: "bfp (UserStats_bmiMethod j ann) = (22, ''Bmi: Normal'')"
  by (simp add: UserStats_bmiMethod_def bmi_value_def bmi_bands_def static_cast_int_def
      trunc_real_def INT_MIN_def INT_MAX_def ann_def new_UserInfo_def Let_def)

lemma open_bmi: "open_source stats_files ''bmi_user_data.csv'' = Inr [''ann,female,30,60,70,32,90.0,165,active'']"
  by (simp add: open_source_def stats_files_def newline_def)

lemma open_us: "open_source stats_files ''us_user_data.csv'' = Inr [''rob,male,30,70,100,35,,175,active'']"
  by (simp add: open_source_def stats_files_def newline_def)


lemma getMealPrep_fields:
  "gender (UserStats_getMealPrep u) = gender u"
  "bfp (UserStats_getMealPrep u) = bfp u"
  "name (UserStats_getMealPrep u) = name u"
  by (simp_all add: UserStats_getMealPrep_def Let_def)

lemma getDailyCalories_fields:
  "gender (fst (UserStats_getDailyCalories u)) = gender u"
  "bfp (fst (UserStats_getDailyCalories u)) = bfp u"
  "name (fst (UserStats_getDailyCalories u)) = name u"
  by (simp_all add: UserStats_getDailyCalories_def)

lemma getDailyCalories_silent:
  "gender u = ''male'' \<or> gender u = ''female'' \<Longrightarrow> snd (UserStats_getDailyCalories u) = []"
  by (auto simp: UserStats_getDailyCalories_def)

lemma bmiMethod_fields:
  "gender (UserStats_bmiMethod j u) = gender u"
  "name (UserStats_bmiMethod j u) = name u"
  by (simp_all add: UserStats_bmiMethod_def Let_def)

lemma usNavyMethod_fields:
  "gender (fst (UserStats_usNavyMethod j u)) = gender u"
  "name (fst (UserStats_usNavyMethod j u)) = name u"
  by (simp_all add: UserStats_usNavyMethod_def Let_def)

lemma rob_usnavy_silent: "snd (UserStats_usNavyMethod j rob) = []"
  by (simp add: UserStats_usNavyMethod_def rob_def new_UserInfo_def Let_def)

lemma load_bmi_file:
  "UserStats_massLoadAndCompute j stats_files ''bmi_user_data.csv'' BmiMethod =
     Inr ([derived (UserStats_bmiMethod j ann)], [])"
  by (simp add: UserStats_massLoadAndCompute_def open_bmi bind_err_def parse_ann
      getDailyCalories_silent bmiMethod_fields ann_fields split_beta derived_def)

lemma load_us_file_bmi:
  "UserStats_massLoadAndCompute j stats_files ''us_user_data.csv'' BmiMethod =
     Inr ([derived (UserStats_bmiMethod j rob)], [])"
  by (simp add: UserStats_massLoadAndCompute_def open_us bind_err_def parse_rob
      getDailyCalories_silent bmiMethod_fields rob_fields split_beta derived_def)

lemma load_us_file_usnavy:
  "UserStats_massLoadAndCompute j stats_files ''us_user_data.csv'' USNavyMethod =
     Inr ([derived (fst (UserStats_usNavyMethod j rob))], [])"
  by (simp add: UserStats_massLoadAndCompute_def open_us bind_err_def parse_rob
      getDailyCalories_silent usNavyMethod_fields rob_fields rob_usnavy_silent split_beta
      derived_def)

text \<open>
  Claim C1: \<^verbatim>\<open>GetFullStats\<close> reloads each of the two files with its own method and counts
  the records that the method calls Normal. The code loads the US Navy file with the BMI
  method and compares with the BMI label. On the files \<open>stats_files\<close> the US Navy file
  holds one male, Normal by the BMI method and Very High by the US Navy method:
  \<^verbatim>\<open>GetFullStats\<close> prints 100% healthy for the US Navy file, while \<^verbatim>\<open>GetHealthyUsers\<close>,
  which does use the US Navy method, finds no healthy male in the same file.
\<close>

theorem full_stats_us_file_by_bmi:
  "GetFullStats j stats_files =
     Inr [Cout ''total users: 2'',
          Cout ''male/female percentage: 50% / 50%'',
          Cout ''healty bmi: 100%'',
          Cout ''healty bmi male/female: 0% / 100%'',
          Cout ''healty us: 100%'',
          Cout ''healty us male/female: 100% / 0%''] \<and>
   GetHealthyUsers j stats_files ''USArmy'' ''male'' =
     Inr ([], [Cout ''Healthy Users (male, USArmy method):''])"
proof -
  have 1: "GetFullStats j stats_files =
     Inr [Cout ''total users: 2'',
          Cout ''male/female percentage: 50% / 50%'',
          Cout ''healty bmi: 100%'',
          Cout ''healty bmi male/female: 0% / 100%'',
          Cout ''healty us: 100%'',
          Cout ''healty us male/female: 100% / 0%'']"
    by (simp add: GetFullStats_def load_bmi_file load_us_file_bmi bind_err_def derived_def
        getMealPrep_fields getDailyCalories_fields bmiMethod_fields rob_fields ann_fields
        rob_bmi ann_bmi count_gender_def zero_counters_def Let_def put_int_examples)
  have 2: "GetHealthyUsers j stats_files ''USArmy'' ''male'' =
     Inr ([], [Cout ''Healthy Users (male, USArmy method):''])"
    by (simp add: GetHealthyUsers_def load_us_file_usnavy bind_err_def derived_def
        getMealPrep_fields getDailyCalories_fields usNavyMethod_fields rob_fields
        rob_usnavy_category)
  from 1 2 show ?thesis by simp
qed

section \<open>The two entry points of a method\<close>




end
